theory Spec2Isabelle
  imports Main
begin

section \<open>Data model\<close>

text \<open>
  The Loadout Optimizer of DIM: the reducer of \<^verbatim>\<open>loadout-builder-reducer.ts\<close> and the
  hook \<^verbatim>\<open>useInitialLoadout\<close> of \<^verbatim>\<open>initial-loadout.ts\<close>, as pure functions.

  A JavaScript number is an integer here, or \<open>NaN\<close> (what \<^verbatim>\<open>parseInt\<close> gives on a string
  with no digits). \<^verbatim>\<open>===\<close> on numbers is \<open>strict_eq\<close>: \<open>NaN\<close> is not equal to itself.
  An optional field (\<^verbatim>\<open>f?: T\<close>) is an \<open>option\<close>: \<open>None\<close> is what reading the field gives
  when it is missing or holds \<^verbatim>\<open>undefined\<close>.
\<close>

datatype number = NaN | Num int

definition strict_eq :: "number \<Rightarrow> number \<Rightarrow> bool" where
  "strict_eq a b = (case (a, b) of (Num x, Num y) \<Rightarrow> x = y | _ \<Rightarrow> False)"

text \<open>\<^verbatim>\<open>DestinyClass.Unknown\<close> of bungie-api-ts.\<close>

definition DestinyClass_Unknown :: number where
  "DestinyClass_Unknown = Num 3"

text \<open>
  The types of dim-api-types and of \<^verbatim>\<open>./types\<close> are not among the sources; the records
  below have the fields the two files read or write.
\<close>

record StatConstraint =
  statHash :: nat
  minTier :: "nat option"
  maxTier :: "nat option"

text \<open>
  The parameters of a URL are JSON cast to \<^verbatim>\<open>LoadoutParameters\<close>, unchecked, so at run time
  \<open>statConstraints\<close> may hold what the type excludes. Two such values make
  \<open>sanitizeLoadoutParameters\<close> throw, and the model has them: a truthy value that cannot be
  iterated (a number, \<^verbatim>\<open>true\<close>, an object), and a list with \<^verbatim>\<open>null\<close> among its entries
  (\<open>None\<close>). A falsy value reads as a missing field.
\<close>

datatype statConstraintsValue = NotIterable | Constraints "StatConstraint option list"

record LoadoutParameters =
  statConstraints :: "statConstraintsValue option"
  mods :: "nat list option"
  query :: "string option"
  assumeArmorMasterwork :: "nat option"
  exoticArmorHash :: "int option"
  lockArmorEnergyType :: "nat option"

text \<open>\<^verbatim>\<open>emptyObject()\<close> and \<^verbatim>\<open>{}\<close> at the type of the parameters.\<close>

definition emptyParameters :: LoadoutParameters where
  "emptyParameters =
     \<lparr>statConstraints = None, mods = None, query = None, assumeArmorMasterwork = None,
      exoticArmorHash = None, lockArmorEnergyType = None\<rparr>"

record LoadoutItem =
  li_id :: string
  li_hash :: nat
  amount :: nat
  equip :: bool
  socketOverrides :: "(nat \<times> nat) list option"

record Loadout =
  loadout_id :: string
  loadout_name :: string
  classType :: number
  loadout_items :: "LoadoutItem list"
  parameters :: "LoadoutParameters option"
  loadout_notes :: "string option"

text \<open>\<open>DimItem\<close>: \<^verbatim>\<open>item.id\<close> and \<^verbatim>\<open>item.bucket.hash\<close>, and the item's own hash.\<close>

record DimItem =
  item_id :: string
  item_hash :: nat
  bucket_hash :: nat

text \<open>
  An inventory item definition of the manifest: \<^verbatim>\<open>hash\<close>, \<^verbatim>\<open>displayProperties.name\<close>,
  \<^verbatim>\<open>plug?.plugCategoryHash\<close>, \<^verbatim>\<open>equippingBlock?.uniqueLabel\<close>,
  \<^verbatim>\<open>inventory?.bucketTypeHash\<close> and \<^verbatim>\<open>classType\<close>. \<^verbatim>\<open>defs.InventoryItem.get\<close> is a
  partial map from hashes to definitions.
\<close>

record InventoryItemDefinition =
  def_hash :: nat
  displayName :: string
  plugCategoryHash :: "nat option"
  uniqueLabel :: "string option"
  bucketTypeHash :: "nat option"
  def_classType :: "number option"

type_synonym D2ManifestDefinitions = "nat \<Rightarrow> InventoryItemDefinition option"

record MinMaxIgnored =
  stat_min :: nat
  stat_max :: nat
  ignored :: bool

type_synonym StatFilters = "(nat \<times> MinMaxIgnored) list"

record ArmorSet =
  armor :: "DimItem list list"
  stats :: "(nat \<times> nat) list"

record DimStore =
  store_id :: string
  store_classType :: number
  current :: bool

record ModPicker =
  is_open :: bool
  plugCategoryHashWhitelist :: "nat list option"

text \<open>
  \<open>pinnedItems\<close> and \<open>excludedItems\<close> are objects indexed by bucket hash: maps, where
  \<open>None\<close> at \<open>k\<close> is what \<^verbatim>\<open>obj[k]\<close> reads when the key is missing or holds
  \<^verbatim>\<open>undefined\<close>.
\<close>

record LoadoutBuilderState =
  loadout :: Loadout
  statOrder :: "nat list"
  statFilters :: StatFilters
  pinnedItems :: "nat \<rightharpoonup> DimItem"
  excludedItems :: "nat \<rightharpoonup> DimItem list"
  selectedStoreId :: "string option"
  modPicker :: ModPicker
  compareSet :: "ArmorSet option"

subsection \<open>Notifications\<close>

text \<open>
  \<^verbatim>\<open>showNotification\<close> is an effect: the functions return the notifications they show, in
  order. \<^verbatim>\<open>t(key, args)\<close> of i18next is kept as the call itself, key and arguments.
\<close>

datatype severity = Error | Warning

datatype translation = T string "(string \<times> string) list"

record Notification =
  ntype :: severity
  title :: translation
  body :: translation

section \<open>The reducer\<close>

datatype LoadoutBuilderAction =
    changeCharacter string
  | statFiltersChanged StatFilters
  | sortOrderChanged "nat list"
  | assumeArmorMasterworkChanged "nat option"
  | lockArmorEnergyTypeChanged "nat option"
  | pinItem DimItem
  | setPinnedItems "DimItem list"
  | unpinItem DimItem
  | excludeItem DimItem
  | unexcludeItem DimItem
  | lockedModsChanged "InventoryItemDefinition list"
  | removeLockedMod InventoryItemDefinition
  | addGeneralMods "InventoryItemDefinition list"
  | updateSubclass DimItem
  | removeSubclass
  | updateSubclassSocketOverrides "(nat \<times> nat) list"
  | removeSingleSubclassSocketOverride InventoryItemDefinition
  | lockExotic int
  | removeLockedExotic
  | openModPicker "nat list option"
  | closeModPicker
  | openCompareDrawer ArmorSet
  | closeCompareDrawer

text \<open>
  The object literal passed to \<open>mergeLoadoutParameters\<close> has some of the keys of the
  parameters, and a key it has may hold \<^verbatim>\<open>undefined\<close>
  (\<^verbatim>\<open>{ exoticArmorHash: undefined }\<close>), which the spread copies. A field of a patch is
  \<open>None\<close> when the literal has no such key, \<open>Some v\<close> when it has it with value \<open>v\<close>.
\<close>

record ParametersPatch =
  patch_statConstraints :: "statConstraintsValue option option"
  patch_mods :: "nat list option option"
  patch_query :: "string option option"
  patch_assumeArmorMasterwork :: "nat option option"
  patch_exoticArmorHash :: "int option option"
  patch_lockArmorEnergyType :: "nat option option"

definition noPatch :: ParametersPatch where
  "noPatch =
     \<lparr>patch_statConstraints = None, patch_mods = None, patch_query = None,
      patch_assumeArmorMasterwork = None, patch_exoticArmorHash = None,
      patch_lockArmorEnergyType = None\<rparr>"

definition over :: "'a option \<Rightarrow> 'a option option \<Rightarrow> 'a option" where
  "over old new = (case new of None \<Rightarrow> old | Some v \<Rightarrow> v)"

text \<open>\<^verbatim>\<open>{ ...parameters, ...params }\<close>; spreading \<^verbatim>\<open>undefined\<close> copies nothing.\<close>

definition spread :: "LoadoutParameters option \<Rightarrow> ParametersPatch \<Rightarrow> LoadoutParameters" where
  "spread old params =
     (let p = (case old of None \<Rightarrow> emptyParameters | Some q \<Rightarrow> q) in
      \<lparr>statConstraints = over (statConstraints p) (patch_statConstraints params),
       mods = over (mods p) (patch_mods params),
       query = over (query p) (patch_query params),
       assumeArmorMasterwork = over (assumeArmorMasterwork p) (patch_assumeArmorMasterwork params),
       exoticArmorHash = over (exoticArmorHash p) (patch_exoticArmorHash params),
       lockArmorEnergyType = over (lockArmorEnergyType p) (patch_lockArmorEnergyType params)\<rparr>)"

definition mergeLoadoutParameters :: "LoadoutBuilderState \<Rightarrow> ParametersPatch \<Rightarrow> LoadoutBuilderState" where
  "mergeLoadoutParameters state params =
     state\<lparr>loadout := (loadout state)\<lparr>parameters := Some (spread (parameters (loadout state)) params)\<rparr>\<rparr>"

text \<open>\<^verbatim>\<open>state.loadout.parameters?.mods ?? []\<close>\<close>

definition stateMods :: "LoadoutBuilderState \<Rightarrow> nat list" where
  "stateMods state =
     (case parameters (loadout state) of None \<Rightarrow> []
      | Some p \<Rightarrow> (case mods p of None \<Rightarrow> [] | Some ms \<Rightarrow> ms))"

text \<open>
  \<^verbatim>\<open>defs.InventoryItem.get(mod)?.plug?.plugCategoryHash === armor2PlugCategoryHashesByName.general\<close>.
  The table \<^verbatim>\<open>armor2PlugCategoryHashesByName\<close> is not among the sources: its entry
  \<open>general\<close> is a parameter.
\<close>

definition isGeneralMod :: "nat \<Rightarrow> D2ManifestDefinitions \<Rightarrow> nat \<Rightarrow> bool" where
  "isGeneralMod general defs m =
     (case defs m of None \<Rightarrow> False | Some d \<Rightarrow> plugCategoryHash d = Some general)"

definition generalModsCount :: "nat \<Rightarrow> D2ManifestDefinitions \<Rightarrow> nat list \<Rightarrow> nat" where
  "generalModsCount general defs ms = length (filter (isGeneralMod general defs) ms)"

text \<open>
  The loop of \<open>addGeneralMods\<close> over \<^verbatim>\<open>action.mods\<close>; its state is \<open>newMods\<close>,
  \<open>currentGeneralModsCount\<close> and \<open>failures\<close>.
\<close>

fun addModsLoop ::
  "InventoryItemDefinition list \<Rightarrow> nat list \<times> nat \<times> string list \<Rightarrow> nat list \<times> nat \<times> string list" where
  "addModsLoop [] acc = acc"
| "addModsLoop (m # rest) (newMods, currentGeneralModsCount, failures) =
     (if currentGeneralModsCount < 5
      then addModsLoop rest (newMods @ [def_hash m], currentGeneralModsCount + 1, failures)
      else addModsLoop rest (newMods, currentGeneralModsCount, failures @ [displayName m]))"

text \<open>\<^verbatim>\<open>failures.join(', ')\<close>\<close>

fun join :: "string list \<Rightarrow> string" where
  "join [] = []"
| "join [x] = x"
| "join (x # y # ys) = x @ '', '' @ join (y # ys)"

definition unableToAddAllMods :: "string list \<Rightarrow> Notification" where
  "unableToAddAllMods failures =
     \<lparr>ntype = Warning,
      title = T ''LoadoutBuilder.UnableToAddAllMods'' [],
      body = T ''LoadoutBuilder.UnableToAddAllModsBody'' [(''mods'', join failures)]\<rparr>"

text \<open>\<^verbatim>\<open>_.keyBy(items, (i) => i.bucket.hash)\<close>: a later item replaces an earlier one of its bucket.\<close>

definition keyByBucket :: "DimItem list \<Rightarrow> (nat \<rightharpoonup> DimItem)" where
  "keyByBucket its = foldl (\<lambda>m i. m(bucket_hash i \<mapsto> i)) Map.empty its"

text \<open>\<^verbatim>\<open>newMods.findIndex\<close> and \<^verbatim>\<open>splice(indexToRemove, 1)\<close>: the first occurrence goes.\<close>

fun removeFirst :: "nat \<Rightarrow> nat list \<Rightarrow> nat list" where
  "removeFirst h [] = []"
| "removeFirst h (m # ms) = (if m = h then ms else m # removeFirst h ms)"

text \<open>
  \<open>lbStateReducer general defs state action\<close> is the new state and the notifications shown
  on the way. The cases stand in the order of the \<^verbatim>\<open>switch\<close>.
\<close>

fun lbStateReducer ::
  "nat \<Rightarrow> D2ManifestDefinitions \<Rightarrow> LoadoutBuilderState \<Rightarrow> LoadoutBuilderAction \<Rightarrow>
   LoadoutBuilderState \<times> Notification list" where
  "lbStateReducer general defs state (changeCharacter storeId) =
     (state\<lparr>selectedStoreId := Some storeId, pinnedItems := Map.empty, excludedItems := Map.empty\<rparr>, [])"
| "lbStateReducer general defs state (statFiltersChanged fs) =
     (state\<lparr>statFilters := fs\<rparr>, [])"
| "lbStateReducer general defs state (pinItem item) =
     (let bucketHash = bucket_hash item in
      (state\<lparr>pinnedItems := (pinnedItems state)(bucketHash \<mapsto> item),
             excludedItems := (excludedItems state)(bucketHash := None)\<rparr>, []))"
| "lbStateReducer general defs state (setPinnedItems its) =
     (state\<lparr>pinnedItems := keyByBucket its, excludedItems := Map.empty\<rparr>, [])"
| "lbStateReducer general defs state (unpinItem item) =
     (let bucketHash = bucket_hash item in
      (state\<lparr>pinnedItems := (pinnedItems state)(bucketHash := None)\<rparr>, []))"
| "lbStateReducer general defs state (excludeItem item) =
     (let bucketHash = bucket_hash item in
      if (case excludedItems state bucketHash of None \<Rightarrow> False
          | Some ex \<Rightarrow> list_ex (\<lambda>i. item_id i = item_id item) ex)
      then (state, [])
      else
        let existingExcluded = (case excludedItems state bucketHash of None \<Rightarrow> [] | Some ex \<Rightarrow> ex) in
        (state\<lparr>pinnedItems := (pinnedItems state)(bucketHash := None),
               excludedItems := (excludedItems state)(bucketHash \<mapsto> existingExcluded @ [item])\<rparr>, []))"
| "lbStateReducer general defs state (unexcludeItem item) =
     (let bucketHash = bucket_hash item;
          newExcluded = filter (\<lambda>i. item_id i \<noteq> item_id item)
            (case excludedItems state bucketHash of None \<Rightarrow> [] | Some ex \<Rightarrow> ex) in
      (state\<lparr>excludedItems := (excludedItems state)
          (bucketHash := (if length newExcluded > 0 then Some newExcluded else None))\<rparr>, []))"
| "lbStateReducer general defs state (lockedModsChanged lockedMods) =
     (mergeLoadoutParameters state (noPatch\<lparr>patch_mods := Some (Some (map def_hash lockedMods))\<rparr>), [])"
| "lbStateReducer general defs state (sortOrderChanged sortOrder) =
     (state\<lparr>statOrder := sortOrder\<rparr>, [])"
| "lbStateReducer general defs state (assumeArmorMasterworkChanged v) =
     (mergeLoadoutParameters state (noPatch\<lparr>patch_assumeArmorMasterwork := Some v\<rparr>), [])"
| "lbStateReducer general defs state (lockArmorEnergyTypeChanged v) =
     (mergeLoadoutParameters state (noPatch\<lparr>patch_lockArmorEnergyType := Some v\<rparr>), [])"
| "lbStateReducer general defs state (addGeneralMods ms) =
     (let newMods = stateMods state;
          currentGeneralModsCount = generalModsCount general defs newMods;
          (newMods', count', failures) = addModsLoop ms (newMods, currentGeneralModsCount, [])
      in (mergeLoadoutParameters state (noPatch\<lparr>patch_mods := Some (Some newMods')\<rparr>),
          if length failures \<noteq> 0 then [unableToAddAllMods failures] else []))"
| "lbStateReducer general defs state (removeLockedMod m) =
     (mergeLoadoutParameters state
        (noPatch\<lparr>patch_mods := Some (Some (removeFirst (def_hash m) (stateMods state)))\<rparr>), [])"
| "lbStateReducer general defs state (updateSubclass item) = (state, [])"
| "lbStateReducer general defs state removeSubclass = (state, [])"
| "lbStateReducer general defs state (updateSubclassSocketOverrides ov) = (state, [])"
| "lbStateReducer general defs state (removeSingleSubclassSocketOverride plug) = (state, [])"
| "lbStateReducer general defs state (lockExotic lockedExoticHash) =
     (mergeLoadoutParameters state (noPatch\<lparr>patch_exoticArmorHash := Some (Some lockedExoticHash)\<rparr>), [])"
| "lbStateReducer general defs state removeLockedExotic =
     (mergeLoadoutParameters state (noPatch\<lparr>patch_exoticArmorHash := Some None\<rparr>), [])"
| "lbStateReducer general defs state (openModPicker whitelist) =
     (state\<lparr>modPicker := \<lparr>is_open = True, plugCategoryHashWhitelist = whitelist\<rparr>\<rparr>, [])"
| "lbStateReducer general defs state closeModPicker =
     (state\<lparr>modPicker := \<lparr>is_open = False, plugCategoryHashWhitelist = None\<rparr>\<rparr>, [])"
| "lbStateReducer general defs state (openCompareDrawer s) =
     (state\<lparr>compareSet := Some s\<rparr>, [])"
| "lbStateReducer general defs state closeCompareDrawer =
     (state\<lparr>compareSet := None\<rparr>, [])"

text \<open>A sequence of dispatched actions, from the left; the notifications accumulate.\<close>

fun dispatchAll ::
  "nat \<Rightarrow> D2ManifestDefinitions \<Rightarrow> LoadoutBuilderState \<Rightarrow> LoadoutBuilderAction list \<Rightarrow>
   LoadoutBuilderState \<times> Notification list" where
  "dispatchAll general defs state [] = (state, [])"
| "dispatchAll general defs state (a # as) =
     (let (s1, n1) = lbStateReducer general defs state a;
          (s2, n2) = dispatchAll general defs s1 as
      in (s2, n1 @ n2))"

section \<open>The initial state\<close>

text \<open>
  \<open>lbStateInit\<close> calls \<^verbatim>\<open>getCurrentStore\<close> and the stat-order and stat-filter helpers of
  \<^verbatim>\<open>./loadout-params\<close>, none of them among the sources: they are parameters.
  \<^verbatim>\<open>getCurrentStore(stores)!.id\<close> throws a TypeError when there is no store to select;
  that is the result \<open>None\<close>.
\<close>

record InitializerArgs =
  stores :: "DimStore list"
  initialLoadout :: Loadout
  customStatsByClass :: "number \<Rightarrow> nat list option"
  loStatOrderByClass :: "number \<Rightarrow> nat list option"

record InitHelpers =
  getCurrentStore :: "DimStore list \<Rightarrow> DimStore option"
  statOrderFromLoadoutParameters :: "LoadoutParameters \<Rightarrow> nat list"
  statOrderFromSavedPreferences :: "nat list option \<Rightarrow> nat list option"
  statOrderFromCustomStats :: "nat list option \<Rightarrow> nat list option"
  statFiltersFromLoadoutParamaters :: "LoadoutParameters \<Rightarrow> StatFilters"

definition lbStateInit :: "InitHelpers \<Rightarrow> InitializerArgs \<Rightarrow> LoadoutBuilderState option" where
  "lbStateInit h args =
     (let ct = classType (initialLoadout args);
          matchingClass =
            (if \<not> strict_eq ct DestinyClass_Unknown
             then find (\<lambda>store. strict_eq (store_classType store) ct) (stores args)
             else None)
      in case (case matchingClass of Some s \<Rightarrow> Some s | None \<Rightarrow> getCurrentStore h (stores args)) of
           None \<Rightarrow> None
         | Some store \<Rightarrow>
             let loadoutParameters =
                   (case parameters (initialLoadout args) of None \<Rightarrow> emptyParameters | Some p \<Rightarrow> p);
                 order =
                   (if statConstraints loadoutParameters \<noteq> None
                    then statOrderFromLoadoutParameters h loadoutParameters
                    else case statOrderFromSavedPreferences h (loStatOrderByClass args ct) of
                           Some so \<Rightarrow> so
                         | None \<Rightarrow>
                             (case statOrderFromCustomStats h (customStatsByClass args ct) of
                                Some so \<Rightarrow> so
                              | None \<Rightarrow> statOrderFromLoadoutParameters h loadoutParameters))
             in Some \<lparr>loadout = initialLoadout args,
                      statOrder = order,
                      statFilters = statFiltersFromLoadoutParamaters h loadoutParameters,
                      pinnedItems = Map.empty,
                      excludedItems = Map.empty,
                      selectedStoreId = Some (store_id store),
                      modPicker = \<lparr>is_open = False, plugCategoryHashWhitelist = None\<rparr>,
                      compareSet = None\<rparr>)"

section \<open>The initial loadout\<close>

text \<open>
  \<open>useInitialLoadout\<close> reads the location (its navigation state, its path and its query
  string, here the parsed \<^verbatim>\<open>URLSearchParams\<close>: \<^verbatim>\<open>get\<close> gives the first value of a key),
  the definitions, which may not be loaded yet, and the saved parameters. It returns the
  loadout and the store id, and here also its effects in order: the notifications shown
  and the calls of \<^verbatim>\<open>navigate(pathname, { replace })\<close>.

  The decoders are parameters: \<^verbatim>\<open>parseLoadoutFromURLParam\<close>, \<^verbatim>\<open>newLoadout\<close>,
  \<^verbatim>\<open>LockableBucketHashes\<close> (of this repository, not among the sources), \<^verbatim>\<open>JSON.parse\<close> at
  the two types it is cast to, \<^verbatim>\<open>parseInt\<close> and \<^verbatim>\<open>defaultLoadoutParameters\<close>. A decoder
  that throws returns \<open>Inl\<close> of the error's message; one that returns a falsy value
  (\<^verbatim>\<open>undefined\<close>, \<^verbatim>\<open>null\<close>) returns \<open>Inr None\<close>. The values decoded are taken to have the
  type the source casts them to, but for the \<open>statConstraints\<close> of the parameters.
\<close>

record LocationState =
  nav_loadout :: "Loadout option"
  nav_storeId :: "string option"

record Subclass =
  sub_hash :: nat
  sub_socketOverrides :: "(nat \<times> nat) list"

record HookInputs =
  hook_defs :: "D2ManifestDefinitions option"
  pathname :: string
  nav_state :: "LocationState option"
  searchParams :: "(string \<times> string) list"
  savedLoadoutParameters :: "LoadoutParameters option"
  randomId :: string

record Collaborators =
  parseLoadoutFromURLParam :: "string \<Rightarrow> string + Loadout option"
  JSON_parse_subclass :: "string \<Rightarrow> string + Subclass option"
  JSON_parse_parameters :: "string \<Rightarrow> string + LoadoutParameters"
  parseInt :: "string \<Rightarrow> number"
  newLoadout :: "string \<Rightarrow> LoadoutItem list \<Rightarrow> number \<Rightarrow> Loadout"
  defaultLoadoutParameters :: LoadoutParameters
  LockableBucketHashes :: "nat list"

datatype effect = showNotification Notification | navigate string bool

definition badLoadoutShare :: "string \<Rightarrow> effect" where
  "badLoadoutShare message =
     showNotification
       \<lparr>ntype = Error,
        title = T ''Loadouts.BadLoadoutShare'' [],
        body = T ''Loadouts.BadLoadoutShareBody'' [(''error'', message)]\<rparr>"

text \<open>A string that may be \<^verbatim>\<open>null\<close>, as a condition: neither missing nor empty.\<close>

definition truthy :: "string option \<Rightarrow> bool" where
  "truthy s = (case s of None \<Rightarrow> False | Some x \<Rightarrow> x \<noteq> [])"

definition searchGet :: "(string \<times> string) list \<Rightarrow> string \<Rightarrow> string option" where
  "searchGet ps k = map_of ps k"

text \<open>
  \<open>sanitizeLoadoutParameters\<close>: immer's \<^verbatim>\<open>produce\<close> returns the parameters with the changes
  the recipe makes on its draft, or throws what the recipe throws. The recipe throws a
  TypeError at \<^verbatim>\<open>for (const constraint of draft.statConstraints)\<close> when the value cannot be
  iterated, and at \<^verbatim>\<open>delete constraint.maxTier\<close> when the entry is \<^verbatim>\<open>null\<close>. The result
  \<open>Inl\<close> is the message of the error; the two messages are worded as V8 words them.
\<close>

definition notIterableMessage :: string where
  "notIterableMessage = ''draft.statConstraints is not iterable''"

definition nullEntryMessage :: string where
  "nullEntryMessage = ''Cannot convert undefined or null to object''"

text \<open>The loop over the constraints, which stops at the first \<^verbatim>\<open>null\<close>.\<close>

fun stripBounds :: "StatConstraint option list \<Rightarrow> string + StatConstraint option list" where
  "stripBounds [] = Inr []"
| "stripBounds (None # rest) = Inl nullEntryMessage"
| "stripBounds (Some constraint # rest) =
     (case stripBounds rest of
        Inl message \<Rightarrow> Inl message
      | Inr rest' \<Rightarrow> Inr (Some (constraint\<lparr>maxTier := None, minTier := None\<rparr>) # rest'))"

definition sanitizeLoadoutParameters :: "LoadoutParameters \<Rightarrow> string + LoadoutParameters" where
  "sanitizeLoadoutParameters loadoutParameters =
     (let query' =
            (case query loadoutParameters of
               None \<Rightarrow> None
             | Some q \<Rightarrow> if q \<noteq> [] \<and> length q > 2048 then Some [] else Some q);
          constraints' =
            (case statConstraints loadoutParameters of
               None \<Rightarrow> Inr None
             | Some NotIterable \<Rightarrow> Inl notIterableMessage
             | Some (Constraints cs) \<Rightarrow>
                 (case stripBounds cs of
                    Inl message \<Rightarrow> Inl message
                  | Inr cs' \<Rightarrow> Inr (Some (Constraints cs'))))
      in case constraints' of
           Inl message \<Rightarrow> Inl message
         | Inr stripped \<Rightarrow>
             Inr (loadoutParameters
                   \<lparr>query := query',
                    statConstraints := stripped,
                    assumeArmorMasterwork := None,
                    lockArmorEnergyType := None\<rparr>))"

text \<open>
  \<^verbatim>\<open>{ ...defaultLoadoutParameters, ...loadoutParameters }\<close> on parsed JSON: a key the JSON
  has holds a value, and replaces the default.
\<close>

definition asPatch :: "LoadoutParameters \<Rightarrow> ParametersPatch" where
  "asPatch p =
     \<lparr>patch_statConstraints = map_option Some (statConstraints p),
      patch_mods = map_option Some (mods p),
      patch_query = map_option Some (query p),
      patch_assumeArmorMasterwork = map_option Some (assumeArmorMasterwork p),
      patch_exoticArmorHash = map_option Some (exoticArmorHash p),
      patch_lockArmorEnergyType = map_option Some (lockArmorEnergyType p)\<rparr>"

text \<open>
  The equipped exotic of a preloaded loadout: the first definition, among those of the
  equipped items, with a non-empty \<open>uniqueLabel\<close> and a lockable bucket
  (\<^verbatim>\<open>i.inventory?.bucketTypeHash ?? 0\<close>).
\<close>

definition equippedExotic ::
  "D2ManifestDefinitions \<Rightarrow> nat list \<Rightarrow> Loadout \<Rightarrow> InventoryItemDefinition option" where
  "equippedExotic d lockable l =
     (case find
         (\<lambda>i. case i of
                None \<Rightarrow> False
              | Some x \<Rightarrow>
                  truthy (uniqueLabel x) \<and>
                  List.member lockable (case bucketTypeHash x of None \<Rightarrow> 0 | Some b \<Rightarrow> b))
         (map (\<lambda>li. d (li_hash li)) (filter equip (loadout_items l)))
      of Some (Some x) \<Rightarrow> Some x | _ \<Rightarrow> None)"

text \<open>\<^verbatim>\<open>preloadedLoadout.parameters?.exoticArmorHash\<close> as a condition: present and not 0.\<close>

definition hasExoticArmorHash :: "Loadout \<Rightarrow> bool" where
  "hasExoticArmorHash l =
     (case parameters l of
        None \<Rightarrow> False
      | Some p \<Rightarrow> (case exoticArmorHash p of None \<Rightarrow> False | Some h \<Rightarrow> h \<noteq> 0))"

text \<open>The branch of the loadout passed in the navigation state.\<close>

definition preloadedLoadout :: "Collaborators \<Rightarrow> HookInputs \<Rightarrow> Loadout \<Rightarrow> Loadout" where
  "preloadedLoadout c inp l =
     (case hook_defs inp of
        None \<Rightarrow> l
      | Some d \<Rightarrow>
          if \<not> hasExoticArmorHash l
          then (case equippedExotic d (LockableBucketHashes c) l of
                  None \<Rightarrow> l
                | Some x \<Rightarrow>
                    l\<lparr>parameters :=
                        Some (spread (parameters l)
                          (noPatch\<lparr>patch_exoticArmorHash := Some (Some (int (def_hash x)))\<rparr>))\<rparr>)
          else l)"

text \<open>
  The query parameter \<open>l\<close>: the loadout it decodes to, or nothing and the effects of the
  failure. \<^verbatim>\<open>navigate\<close> is called whenever the parameter is there and no loadout came out
  of it.
\<close>

definition sharedLoadout :: "Collaborators \<Rightarrow> HookInputs \<Rightarrow> Loadout option \<times> effect list" where
  "sharedLoadout c inp =
     (case searchGet (searchParams inp) ''l'' of
        None \<Rightarrow> (None, [])
      | Some loadoutJSON \<Rightarrow>
          if loadoutJSON \<noteq> []
          then (case parseLoadoutFromURLParam c loadoutJSON of
                  Inr (Some parsedLoadout) \<Rightarrow> (Some parsedLoadout, [])
                | Inr None \<Rightarrow> (None, [navigate (pathname inp) True])
                | Inl message \<Rightarrow> (None, [badLoadoutShare message, navigate (pathname inp) True]))
          else (None, []))"

text \<open>The query parameter \<open>s\<close>: "Extract subclass info".\<close>

definition urlSubclass :: "Collaborators \<Rightarrow> HookInputs \<Rightarrow> Subclass option \<times> effect list" where
  "urlSubclass c inp =
     (case searchGet (searchParams inp) ''s'' of
        None \<Rightarrow> (None, [])
      | Some subclassJSON \<Rightarrow>
          if subclassJSON \<noteq> []
          then (case JSON_parse_subclass c subclassJSON of
                  Inr subclass \<Rightarrow> (subclass, [])
                | Inl message \<Rightarrow> (None, [badLoadoutShare message]))
          else (None, []))"

text \<open>
  The query parameter \<open>p\<close>: "Default to saved loadout parameters, but allow URL to override
  them". The parsed JSON is assigned to \<open>loadoutParameters\<close> before it is sanitized, and both
  steps stand in one \<^verbatim>\<open>try\<close>: when \<^verbatim>\<open>JSON.parse\<close> throws, the saved parameters stay; when
  \<open>sanitizeLoadoutParameters\<close> throws, the parsed object stays, as it was parsed. Either way
  the \<^verbatim>\<open>catch\<close> shows the notification.
\<close>

definition urlLoadoutParameters ::
  "Collaborators \<Rightarrow> HookInputs \<Rightarrow> LoadoutParameters option \<times> effect list" where
  "urlLoadoutParameters c inp =
     (case searchGet (searchParams inp) ''p'' of
        None \<Rightarrow> (savedLoadoutParameters inp, [])
      | Some urlLoadoutParametersJSON \<Rightarrow>
          if urlLoadoutParametersJSON \<noteq> []
          then (case JSON_parse_parameters c urlLoadoutParametersJSON of
                  Inr parsed \<Rightarrow>
                    (case sanitizeLoadoutParameters
                            (spread (Some (defaultLoadoutParameters c)) (asPatch parsed)) of
                       Inr sanitized \<Rightarrow> (Some sanitized, [])
                     | Inl message \<Rightarrow> (Some parsed, [badLoadoutShare message]))
                | Inl message \<Rightarrow> (savedLoadoutParameters inp, [badLoadoutShare message]))
          else (savedLoadoutParameters inp, []))"

text \<open>
  "If the URL params specified an exotic without a class, set the class from the exotic".
\<close>

definition classFromExotic ::
  "HookInputs \<Rightarrow> number \<Rightarrow> LoadoutParameters option \<Rightarrow> number" where
  "classFromExotic inp ct loadoutParameters =
     (case (hook_defs inp, loadoutParameters) of
        (Some d, Some p) \<Rightarrow>
          (case exoticArmorHash p of
             Some h \<Rightarrow>
               if strict_eq ct DestinyClass_Unknown \<and> h \<noteq> 0 \<and> h > 0
               then (case d (nat h) of
                       None \<Rightarrow> DestinyClass_Unknown
                     | Some x \<Rightarrow> (case def_classType x of None \<Rightarrow> DestinyClass_Unknown | Some k \<Rightarrow> k))
               else ct
           | None \<Rightarrow> ct)
      | _ \<Rightarrow> ct)"

text \<open>
  The loadout made of the single query parameters and the saved parameters. (The block
  "If there aren't ignored/ordered stats, fill them in from defaults" of the source only
  assigns a local variable that nothing reads.)
\<close>

definition constructedLoadout :: "Collaborators \<Rightarrow> HookInputs \<Rightarrow> Loadout \<times> effect list" where
  "constructedLoadout c inp =
     (let urlClassTypeString = searchGet (searchParams inp) ''class'';
          urlNotes = searchGet (searchParams inp) ''n'';
          ct = (case urlClassTypeString of
                  None \<Rightarrow> DestinyClass_Unknown
                | Some str \<Rightarrow> if str \<noteq> [] then parseInt c str else DestinyClass_Unknown);
          (subclass, effects1) = urlSubclass c inp;
          (loadoutParameters, effects2) = urlLoadoutParameters c inp;
          ct' = classFromExotic inp ct loadoutParameters;
          new = newLoadout c [] [] ct'
      in (new\<lparr>parameters := loadoutParameters,
              loadout_notes := (if truthy urlNotes then urlNotes else None),
              loadout_items :=
                loadout_items new @
                (case subclass of
                   None \<Rightarrow> []
                 | Some sub \<Rightarrow>
                     [\<lparr>li_id = randomId inp, li_hash = sub_hash sub, amount = 1, equip = True,
                       socketOverrides = Some (sub_socketOverrides sub)\<rparr>])\<rparr>,
          effects1 @ effects2))"

definition useInitialLoadout ::
  "Collaborators \<Rightarrow> HookInputs \<Rightarrow> (Loadout \<times> string option) \<times> effect list" where
  "useInitialLoadout c inp =
     (case (case nav_state inp of
              None \<Rightarrow> None
            | Some st \<Rightarrow> (case nav_loadout st of None \<Rightarrow> None | Some l \<Rightarrow> Some (l, nav_storeId st)))
      of Some (l, storeId) \<Rightarrow> ((preloadedLoadout c inp l, storeId), [])
       | None \<Rightarrow>
           (case sharedLoadout c inp of
              (Some parsedLoadout, effects) \<Rightarrow> ((parsedLoadout, None), effects)
            | (None, effects) \<Rightarrow>
                (let (l, effects') = constructedLoadout c inp
                 in ((l, None), effects @ effects'))))"

section \<open>Predicates of the properties and sample inputs\<close>

text \<open>The exclusion list of a slot, as the reducer reads it: \<^verbatim>\<open>excludedItems[k] ?? []\<close>.\<close>

definition excludedAt :: "LoadoutBuilderState \<Rightarrow> nat \<Rightarrow> DimItem list" where
  "excludedAt s k = (case excludedItems s k of None \<Rightarrow> [] | Some ex \<Rightarrow> ex)"

text \<open>Slot \<open>k\<close> has a pinned item and a non-empty exclusion list at once.\<close>

definition coexist :: "LoadoutBuilderState \<Rightarrow> nat \<Rightarrow> bool" where
  "coexist s k =
     (pinnedItems s k \<noteq> None \<and>
      (case excludedItems s k of None \<Rightarrow> False | Some ex \<Rightarrow> ex \<noteq> []))"

subsection \<open>Items, states and initializer arguments\<close>

definition helmet :: DimItem where
  "helmet = \<lparr>item_id = ''helmet-1'', item_hash = 11, bucket_hash = 1\<rparr>"

definition otherHelmet :: DimItem where
  "otherHelmet = \<lparr>item_id = ''helmet-2'', item_hash = 12, bucket_hash = 1\<rparr>"

definition gauntlets :: DimItem where
  "gauntlets = \<lparr>item_id = ''gauntlets-1'', item_hash = 21, bucket_hash = 2\<rparr>"

definition demoLoadout :: Loadout where
  "demoLoadout =
     \<lparr>loadout_id = ''lo-1'', loadout_name = ''demo'', classType = Num 1, loadout_items = [],
      parameters = None, loadout_notes = None\<rparr>"

definition pinnedState :: LoadoutBuilderState where
  "pinnedState =
     \<lparr>loadout = demoLoadout, statOrder = [], statFilters = [],
      pinnedItems = [1 \<mapsto> helmet, 2 \<mapsto> gauntlets], excludedItems = Map.empty,
      selectedStoreId = Some ''store-1'',
      modPicker = \<lparr>is_open = False, plugCategoryHashWhitelist = None\<rparr>, compareSet = None\<rparr>"

definition excludedState :: LoadoutBuilderState where
  "excludedState =
     \<lparr>loadout = demoLoadout, statOrder = [], statFilters = [],
      pinnedItems = [2 \<mapsto> gauntlets], excludedItems = [1 \<mapsto> [helmet, otherHelmet]],
      selectedStoreId = Some ''store-1'',
      modPicker = \<lparr>is_open = False, plugCategoryHashWhitelist = None\<rparr>, compareSet = None\<rparr>"

definition noDefs :: D2ManifestDefinitions where
  "noDefs = Map.empty"

definition demoHelpers :: InitHelpers where
  "demoHelpers =
     \<lparr>getCurrentStore = find current,
      statOrderFromLoadoutParameters = (\<lambda>p. []),
      statOrderFromSavedPreferences = (\<lambda>saved. saved),
      statOrderFromCustomStats = (\<lambda>custom. custom),
      statFiltersFromLoadoutParamaters = (\<lambda>p. [])\<rparr>"

definition demoArgs :: InitializerArgs where
  "demoArgs =
     \<lparr>stores = [\<lparr>store_id = ''store-0'', store_classType = Num 0, current = True\<rparr>,
                \<lparr>store_id = ''store-1'', store_classType = Num 1, current = False\<rparr>],
      initialLoadout = demoLoadout,
      customStatsByClass = Map.empty,
      loStatOrderByClass = Map.empty\<rparr>"

definition demoInitialState :: LoadoutBuilderState where
  "demoInitialState =
     \<lparr>loadout = demoLoadout, statOrder = [], statFilters = [],
      pinnedItems = Map.empty, excludedItems = Map.empty,
      selectedStoreId = Some ''store-1'',
      modPicker = \<lparr>is_open = False, plugCategoryHashWhitelist = None\<rparr>, compareSet = None\<rparr>"

subsection \<open>Mods\<close>

text \<open>
  Seven mods of the general category, here 100, and one of another category; the
  definitions that know them; a state whose loadout has the given mod list.
\<close>

definition modDef :: "nat \<Rightarrow> string \<Rightarrow> nat \<Rightarrow> InventoryItemDefinition" where
  "modDef h nm category =
     \<lparr>def_hash = h, displayName = nm, plugCategoryHash = Some category, uniqueLabel = None,
      bucketTypeHash = None, def_classType = None\<rparr>"

definition sevenMods :: "InventoryItemDefinition list" where
  "sevenMods =
     [modDef 11 ''Mobility'' 100, modDef 12 ''Resilience'' 100, modDef 13 ''Recovery'' 100,
      modDef 14 ''Discipline'' 100, modDef 15 ''Intellect'' 100, modDef 16 ''Strength'' 100,
      modDef 17 ''Minor Mobility'' 100]"

definition modDefs :: D2ManifestDefinitions where
  "modDefs = map_of (map (\<lambda>d. (def_hash d, d)) (sevenMods @ [modDef 50 ''Font of Might'' 200]))"

definition modsState :: "nat list \<Rightarrow> LoadoutBuilderState" where
  "modsState ms =
     demoInitialState\<lparr>loadout := demoLoadout\<lparr>parameters := Some (emptyParameters\<lparr>mods := Some ms\<rparr>)\<rparr>\<rparr>"

section \<open>Predicates of the initial loadout and sample inputs\<close>

text \<open>The navigation state carries no loadout.\<close>

definition noPriorLoadout :: "HookInputs \<Rightarrow> bool" where
  "noPriorLoadout inp = (case nav_state inp of None \<Rightarrow> True | Some st \<Rightarrow> nav_loadout st = None)"

text \<open>\<^verbatim>\<open>loadout.parameters?.f\<close>\<close>

definition parametersField :: "(LoadoutParameters \<Rightarrow> 'a option) \<Rightarrow> Loadout \<Rightarrow> 'a option" where
  "parametersField f l = (case parameters l of None \<Rightarrow> None | Some p \<Rightarrow> f p)"

text \<open>The error notifications among the effects, counted.\<close>

fun isErrorNotification :: "effect \<Rightarrow> bool" where
  "isErrorNotification (showNotification n) = (ntype n = Error)"
| "isErrorNotification (navigate path replace) = False"

definition errorNotifications :: "effect list \<Rightarrow> nat" where
  "errorNotifications effects = length (filter isErrorNotification effects)"

text \<open>A query parameter is missing, empty, or its decoder does not throw on it.\<close>

definition decodes :: "(string \<Rightarrow> string + 'a) \<Rightarrow> string option \<Rightarrow> bool" where
  "decodes decoder param =
     (case param of
        None \<Rightarrow> True
      | Some json \<Rightarrow> json = [] \<or> (case decoder json of Inr v \<Rightarrow> True | Inl message \<Rightarrow> False))"

text \<open>The stat constraints are missing, or a list with no \<^verbatim>\<open>null\<close> entry.\<close>

definition wellFormedConstraints :: "LoadoutParameters \<Rightarrow> bool" where
  "wellFormedConstraints p =
     (case statConstraints p of
        None \<Rightarrow> True
      | Some NotIterable \<Rightarrow> False
      | Some (Constraints cs) \<Rightarrow> list_all (\<lambda>entry. entry \<noteq> None) cs)"

text \<open>
  The query parameter \<open>p\<close> is missing, empty, or neither \<^verbatim>\<open>JSON.parse\<close> nor
  \<open>sanitizeLoadoutParameters\<close> throws on it.
\<close>

definition parametersDecode :: "Collaborators \<Rightarrow> string option \<Rightarrow> bool" where
  "parametersDecode c param =
     (case param of
        None \<Rightarrow> True
      | Some json \<Rightarrow>
          json = [] \<or>
          (case JSON_parse_parameters c json of
             Inl message \<Rightarrow> False
           | Inr parsed \<Rightarrow>
               (case sanitizeLoadoutParameters
                       (spread (Some (defaultLoadoutParameters c)) (asPatch parsed)) of
                  Inl message \<Rightarrow> False
                | Inr sanitized \<Rightarrow> True)))"

text \<open>A constraint without its bounds.\<close>

definition withoutBounds :: "StatConstraint \<Rightarrow> StatConstraint" where
  "withoutBounds constraint = \<lparr>statHash = statHash constraint, minTier = None, maxTier = None\<rparr>"

text \<open>The query string without a key.\<close>

definition withoutParam :: "string \<Rightarrow> (string \<times> string) list \<Rightarrow> (string \<times> string) list" where
  "withoutParam k ps = filter (\<lambda>kv. fst kv \<noteq> k) ps"

subsection \<open>Loadouts, parameters, collaborators and locations\<close>

definition sharedDemoLoadout :: Loadout where
  "sharedDemoLoadout =
     \<lparr>loadout_id = ''lo-2'', loadout_name = ''shared'', classType = Num 2, loadout_items = [],
      parameters = Some emptyParameters, loadout_notes = None\<rparr>"

definition urlDemoParameters :: LoadoutParameters where
  "urlDemoParameters =
     \<lparr>statConstraints = Some (Constraints [Some \<lparr>statHash = 100, minTier = Some 2, maxTier = Some 10\<rparr>]),
      mods = None, query = Some (replicate 3000 CHR ''a''), assumeArmorMasterwork = Some 2,
      exoticArmorHash = None, lockArmorEnergyType = Some 2\<rparr>"

text \<open>The same with \<^verbatim>\<open>null\<close> as a second stat constraint.\<close>

definition nullConstraintParameters :: LoadoutParameters where
  "nullConstraintParameters =
     urlDemoParameters
       \<lparr>statConstraints :=
          Some (Constraints [Some \<lparr>statHash = 100, minTier = Some 2, maxTier = Some 10\<rparr>, None])\<rparr>"

definition sharedLongLoadout :: Loadout where
  "sharedLongLoadout =
     \<lparr>loadout_id = ''lo-4'', loadout_name = ''shared'', classType = Num 2, loadout_items = [],
      parameters = Some urlDemoParameters, loadout_notes = None\<rparr>"

definition demoDefaults :: LoadoutParameters where
  "demoDefaults =
     \<lparr>statConstraints = Some (Constraints [Some \<lparr>statHash = 200, minTier = None, maxTier = None\<rparr>]),
      mods = Some [], query = None, assumeArmorMasterwork = Some 0,
      exoticArmorHash = None, lockArmorEnergyType = Some 0\<rparr>"

definition demoCollaborators :: Collaborators where
  "demoCollaborators =
     \<lparr>parseLoadoutFromURLParam =
        (\<lambda>json. if json = ''shared'' then Inr (Some sharedDemoLoadout)
                else if json = ''shared-long'' then Inr (Some sharedLongLoadout)
                else Inl ''Unexpected token''),
      JSON_parse_subclass = (\<lambda>json. Inl ''Unexpected end of JSON input''),
      JSON_parse_parameters =
        (\<lambda>json. if json = ''params'' then Inr urlDemoParameters
                else if json = ''null-constraint'' then Inr nullConstraintParameters
                else Inl ''Unexpected token''),
      parseInt = (\<lambda>str. NaN),
      newLoadout =
        (\<lambda>nm its ct. \<lparr>loadout_id = ''lo-3'', loadout_name = nm, classType = ct, loadout_items = its,
                       parameters = None, loadout_notes = None\<rparr>),
      defaultLoadoutParameters = demoDefaults,
      LockableBucketHashes = [1, 2]\<rparr>"

definition demoInputs :: "LocationState option \<Rightarrow> (string \<times> string) list \<Rightarrow> HookInputs" where
  "demoInputs st ps =
     \<lparr>hook_defs = Some noDefs, pathname = ''/optimizer'', nav_state = st, searchParams = ps,
      savedLoadoutParameters = Some emptyParameters, randomId = ''42''\<rparr>"

definition priorState :: LocationState where
  "priorState = \<lparr>nav_loadout = Some demoLoadout, nav_storeId = Some ''store-1''\<rparr>"

definition priorWithParameters :: LocationState where
  "priorWithParameters =
     \<lparr>nav_loadout = Some (demoLoadout\<lparr>parameters := Some urlDemoParameters\<rparr>),
      nav_storeId = None\<rparr>"

section \<open>Properties of the reducer\<close>

lemma list_ex_item_id: "list_ex (\<lambda>i. item_id i = x) ex \<longleftrightarrow> x \<in> item_id ` set ex"
  by (auto simp: list_ex_iff)

subsection \<open>Pins and exclusions\<close>

lemma coexist_step: "\<not> coexist s k \<Longrightarrow> \<not> coexist (fst (lbStateReducer general defs s a)) k"
  by (cases a)
    (auto simp: coexist_def Let_def mergeLoadoutParameters_def case_prod_unfold
      split: option.splits if_splits)

lemma coexist_run: "\<not> coexist s k \<Longrightarrow> \<not> coexist (fst (dispatchAll general defs s as)) k"
proof (induction as arbitrary: s)
  case Nil
  then show ?case by simp
next
  case (Cons a as)
  have "\<not> coexist (fst (lbStateReducer general defs s a)) k"
    using Cons.prems by (rule coexist_step)
  from Cons.IH [OF this] show ?case
    by (simp add: case_prod_unfold Let_def)
qed

lemma coexist_init: "lbStateInit h args = Some s \<Longrightarrow> \<not> coexist s k"
  by (auto simp: lbStateInit_def coexist_def Let_def split: option.splits if_splits)

lemma lbStateInit_demo: "lbStateInit demoHelpers demoArgs = Some demoInitialState"
  by (simp add: lbStateInit_def demoHelpers_def demoArgs_def demoLoadout_def strict_eq_def
      DestinyClass_Unknown_def demoInitialState_def emptyParameters_def Let_def)

text \<open>
  C2. For every slot \<open>k\<close>, a pin at \<open>k\<close> and a non-empty exclusion list at \<open>k\<close> never
  coexist: no state that \<open>lbStateInit\<close> returns has both, no action of the reducer
  brings both about in a slot that did not have both, and so no state reached from an
  initial state by any sequence of actions has both. Pinning an item sets the pin of its
  slot and clears the slot's exclusion list; excluding an item in a slot where the two do
  not coexist leaves the slot without a pin.
\<close>

theorem pin_exclude_invariant:
  "(lbStateInit h args = Some s0 \<longrightarrow> \<not> coexist s0 k) \<and>
   (lbStateInit h args = Some s0 \<longrightarrow> \<not> coexist (fst (dispatchAll general defs s0 as)) k) \<and>
   (\<not> coexist s k \<longrightarrow> \<not> coexist (fst (lbStateReducer general defs s a)) k) \<and>
   pinnedItems (fst (lbStateReducer general defs s (pinItem item))) (bucket_hash item) = Some item \<and>
   excludedItems (fst (lbStateReducer general defs s (pinItem item))) (bucket_hash item) = None \<and>
   (\<not> coexist s (bucket_hash item) \<longrightarrow>
      pinnedItems (fst (lbStateReducer general defs s (excludeItem item))) (bucket_hash item) = None)"
proof -
  have excl: "pinnedItems (fst (lbStateReducer general defs s (excludeItem item))) (bucket_hash item) = None"
    if "\<not> coexist s (bucket_hash item)"
    using that by (auto simp: coexist_def Let_def list_ex_iff split: option.splits)
  show ?thesis
    using coexist_init [of h args s0 k] coexist_run [of s0 k general defs as]
      coexist_step [of s k general defs a] excl
    by (simp add: Let_def)
qed

theorem pin_exclude_invariant_witness:
  "lbStateInit demoHelpers demoArgs = Some demoInitialState \<and>
   \<not> coexist demoInitialState 1 \<and>
   \<not> coexist (fst (dispatchAll 0 noDefs demoInitialState
        [pinItem helmet, excludeItem otherHelmet, pinItem gauntlets])) 1 \<and>
   \<not> coexist pinnedState 1 \<and>
   \<not> coexist (fst (lbStateReducer 0 noDefs pinnedState (excludeItem otherHelmet))) 1 \<and>
   pinnedItems (fst (lbStateReducer 0 noDefs pinnedState (excludeItem otherHelmet))) 1 = None"
  using pin_exclude_invariant [of demoHelpers demoArgs demoInitialState 1
      0 noDefs "[pinItem helmet, excludeItem otherHelmet, pinItem gauntlets]" pinnedState
      "excludeItem otherHelmet" otherHelmet] lbStateInit_demo
  by (simp add: coexist_def pinnedState_def otherHelmet_def)

text \<open>
  C7. Excluding an item whose identifier is already in the exclusion list of its slot
  returns the state unchanged, with no notification. Otherwise the result has no pin in
  that slot, and the slot's exclusion list is the previous one with the item appended at
  the end. A list without duplicate identifiers stays so, and excluding the same item a
  second time changes nothing.
\<close>

theorem excludeItem_appends:
  "(item_id item \<in> item_id ` set (excludedAt state (bucket_hash item)) \<longrightarrow>
      lbStateReducer general defs state (excludeItem item) = (state, [])) \<and>
   (item_id item \<notin> item_id ` set (excludedAt state (bucket_hash item)) \<longrightarrow>
      pinnedItems (fst (lbStateReducer general defs state (excludeItem item))) (bucket_hash item) = None \<and>
      excludedItems (fst (lbStateReducer general defs state (excludeItem item))) (bucket_hash item) =
        Some (excludedAt state (bucket_hash item) @ [item])) \<and>
   (distinct (map item_id (excludedAt state (bucket_hash item))) \<longrightarrow>
      distinct (map item_id
        (excludedAt (fst (lbStateReducer general defs state (excludeItem item))) (bucket_hash item)))) \<and>
   lbStateReducer general defs (fst (lbStateReducer general defs state (excludeItem item))) (excludeItem item) =
     (fst (lbStateReducer general defs state (excludeItem item)), [])"
  by (auto simp: excludedAt_def Let_def list_ex_item_id split: option.splits)

theorem excludeItem_appends_witness:
  "lbStateReducer 0 noDefs excludedState (excludeItem helmet) = (excludedState, []) \<and>
   pinnedItems pinnedState 1 = Some helmet \<and>
   pinnedItems (fst (lbStateReducer 0 noDefs pinnedState (excludeItem otherHelmet))) 1 = None \<and>
   excludedItems (fst (lbStateReducer 0 noDefs pinnedState (excludeItem otherHelmet))) 1 = Some [otherHelmet]"
  using excludeItem_appends [of helmet excludedState 0 noDefs]
    excludeItem_appends [of otherHelmet pinnedState 0 noDefs]
  by (simp add: excludedState_def pinnedState_def excludedAt_def helmet_def otherHelmet_def)

text \<open>
  C8. After unexcluding an item, the exclusion list of its slot is the previous list
  without the entries that have the item's identifier; when nothing is left, the slot
  reads as absent (\<open>None\<close>), not as an empty list.
\<close>

theorem unexcludeItem_filters:
  "excludedItems (fst (lbStateReducer general defs state (unexcludeItem item))) (bucket_hash item) =
     (if filter (\<lambda>i. item_id i \<noteq> item_id item) (excludedAt state (bucket_hash item)) = []
      then None
      else Some (filter (\<lambda>i. item_id i \<noteq> item_id item) (excludedAt state (bucket_hash item))))"
  by (simp add: excludedAt_def Let_def)

theorem unexcludeItem_filters_witness:
  "excludedItems (fst (lbStateReducer 0 noDefs excludedState (unexcludeItem helmet))) 1 = Some [otherHelmet] \<and>
   excludedItems (fst (lbStateReducer 0 noDefs
      (fst (lbStateReducer 0 noDefs excludedState (unexcludeItem helmet))) (unexcludeItem otherHelmet))) 1 = None"
  using unexcludeItem_filters [of 0 noDefs excludedState helmet]
    unexcludeItem_filters [of 0 noDefs
      "fst (lbStateReducer 0 noDefs excludedState (unexcludeItem helmet))" otherHelmet]
  by (simp add: excludedState_def excludedAt_def helmet_def otherHelmet_def)

text \<open>
  C9. Changing the character sets \<open>selectedStoreId\<close> to the given identifier and makes
  \<open>pinnedItems\<close> and \<open>excludedItems\<close> the empty maps, whatever they held.
\<close>

theorem changeCharacter_clears:
  "selectedStoreId (fst (lbStateReducer general defs state (changeCharacter storeId))) = Some storeId \<and>
   pinnedItems (fst (lbStateReducer general defs state (changeCharacter storeId))) = Map.empty \<and>
   excludedItems (fst (lbStateReducer general defs state (changeCharacter storeId))) = Map.empty"
  by simp

theorem changeCharacter_clears_witness:
  "pinnedItems pinnedState 1 = Some helmet \<and>
   excludedItems excludedState 1 = Some [helmet, otherHelmet] \<and>
   selectedStoreId (fst (lbStateReducer 0 noDefs pinnedState (changeCharacter ''store-2''))) = Some ''store-2'' \<and>
   pinnedItems (fst (lbStateReducer 0 noDefs pinnedState (changeCharacter ''store-2''))) 1 = None \<and>
   excludedItems (fst (lbStateReducer 0 noDefs excludedState (changeCharacter ''store-2''))) 1 = None"
  using changeCharacter_clears [of 0 noDefs pinnedState "''store-2''"]
    changeCharacter_clears [of 0 noDefs excludedState "''store-2''"]
  by (simp add: pinnedState_def excludedState_def)

text \<open>
  C10. Pinning, unpinning, excluding or unexcluding an item leaves the pin and the
  exclusion list of every slot other than the item's as they were, and leaves
  \<open>loadout\<close>, \<open>statOrder\<close>, \<open>statFilters\<close>, \<open>selectedStoreId\<close>, \<open>modPicker\<close> and
  \<open>compareSet\<close> unchanged.
\<close>

theorem slot_actions_frame:
  assumes "action \<in> {pinItem item, unpinItem item, excludeItem item, unexcludeItem item}"
  shows "(k \<noteq> bucket_hash item \<longrightarrow>
            pinnedItems (fst (lbStateReducer general defs state action)) k = pinnedItems state k \<and>
            excludedItems (fst (lbStateReducer general defs state action)) k = excludedItems state k) \<and>
         loadout (fst (lbStateReducer general defs state action)) = loadout state \<and>
         statOrder (fst (lbStateReducer general defs state action)) = statOrder state \<and>
         statFilters (fst (lbStateReducer general defs state action)) = statFilters state \<and>
         selectedStoreId (fst (lbStateReducer general defs state action)) = selectedStoreId state \<and>
         modPicker (fst (lbStateReducer general defs state action)) = modPicker state \<and>
         compareSet (fst (lbStateReducer general defs state action)) = compareSet state"
  using assms by (auto simp: Let_def)

theorem slot_actions_frame_witness:
  "pinnedItems (fst (lbStateReducer 0 noDefs pinnedState (excludeItem otherHelmet))) 2 = Some gauntlets \<and>
   excludedItems (fst (lbStateReducer 0 noDefs excludedState (pinItem gauntlets))) 1 = Some [helmet, otherHelmet] \<and>
   loadout (fst (lbStateReducer 0 noDefs pinnedState (excludeItem otherHelmet))) = demoLoadout"
  using slot_actions_frame [of "excludeItem otherHelmet" otherHelmet 2 0 noDefs pinnedState]
    slot_actions_frame [of "pinItem gauntlets" gauntlets 1 0 noDefs excludedState]
  by (simp add: excludedState_def pinnedState_def helmet_def otherHelmet_def gauntlets_def)

subsection \<open>The cap on general mods\<close>

lemma addModsLoop_eq:
  "addModsLoop ms (newMods, c, failures) =
     (newMods @ map def_hash (take (5 - c) ms), c + min (5 - c) (length ms),
      failures @ map displayName (drop (5 - c) ms))"
proof (induction ms arbitrary: newMods c failures)
  case Nil
  then show ?case by simp
next
  case (Cons m ms)
  show ?case
  proof (cases "c < 5")
    case True
    then have "5 - c = Suc (5 - (c + 1))" by simp
    with True show ?thesis by (simp add: Cons.IH)
  next
    case False
    then show ?thesis by (simp add: Cons.IH)
  qed
qed

lemma generalModsCount_append:
  "generalModsCount general defs (xs @ ys) \<le> generalModsCount general defs xs + length ys"
  by (simp add: generalModsCount_def)

lemma stateMods_merge:
  "stateMods (mergeLoadoutParameters state (noPatch\<lparr>patch_mods := Some (Some ms)\<rparr>)) = ms"
  by (simp add: stateMods_def mergeLoadoutParameters_def spread_def noPatch_def over_def Let_def)

lemma addGeneralMods_result:
  "lbStateReducer general defs state (addGeneralMods ms) =
     (mergeLoadoutParameters state
        (noPatch\<lparr>patch_mods := Some (Some (stateMods state @
           map def_hash (take (5 - generalModsCount general defs (stateMods state)) ms)))\<rparr>),
      if drop (5 - generalModsCount general defs (stateMods state)) ms = [] then []
      else [unableToAddAllMods
              (map displayName (drop (5 - generalModsCount general defs (stateMods state)) ms))])"
  by (simp add: addModsLoop_eq Let_def)

text \<open>
  C1, with the bound on the state. From a state whose mod list has at most 5 mods of the general category,
  \<open>addGeneralMods\<close> gives a state whose mod list has at most 5 of them. With \<open>n\<close> general
  mods in the state, the first \<open>5 - n\<close> mods of the action are appended, in order, the
  others are rejected, and when some are rejected one warning is shown, whose body lists
  their display names, joined by commas. So with 3 general mods in the state and 7 mods in
  the action, the first 2 are appended and the other 5 are named in the single
  notification.
\<close>

theorem addGeneralMods_cap:
  assumes "generalModsCount general defs (stateMods state) \<le> 5"
  shows "generalModsCount general defs
           (stateMods (fst (lbStateReducer general defs state (addGeneralMods ms)))) \<le> 5 \<and>
         stateMods (fst (lbStateReducer general defs state (addGeneralMods ms))) =
           stateMods state @
           map def_hash (take (5 - generalModsCount general defs (stateMods state)) ms) \<and>
         snd (lbStateReducer general defs state (addGeneralMods ms)) =
           (if drop (5 - generalModsCount general defs (stateMods state)) ms = [] then []
            else [unableToAddAllMods
                    (map displayName (drop (5 - generalModsCount general defs (stateMods state)) ms))]) \<and>
         (generalModsCount general defs (stateMods state) = 3 \<and> length ms = 7 \<longrightarrow>
            stateMods (fst (lbStateReducer general defs state (addGeneralMods ms))) =
              stateMods state @ map def_hash (take 2 ms) \<and>
            snd (lbStateReducer general defs state (addGeneralMods ms)) =
              [unableToAddAllMods (map displayName (drop 2 ms))] \<and>
            length (drop 2 ms) = 5)"
proof -
  let ?c = "generalModsCount general defs (stateMods state)"
  have "generalModsCount general defs (stateMods state @ map def_hash (take (5 - ?c) ms))
          \<le> ?c + length (map def_hash (take (5 - ?c) ms))"
    by (rule generalModsCount_append)
  also have "\<dots> \<le> ?c + (5 - ?c)" by simp
  also have "\<dots> = 5" using assms by simp
  finally have bound:
    "generalModsCount general defs (stateMods state @ map def_hash (take (5 - ?c) ms)) \<le> 5" .
  have seven: "drop 2 ms \<noteq> []" if "length ms = 7" using that by auto
  show ?thesis
    unfolding addGeneralMods_result using bound seven by (auto simp: stateMods_merge)
qed

theorem addGeneralMods_cap_witness:
  "generalModsCount 100 modDefs (stateMods (modsState [11, 50, 12, 13])) = 3 \<and>
   stateMods (fst (lbStateReducer 100 modDefs (modsState [11, 50, 12, 13]) (addGeneralMods sevenMods))) =
     [11, 50, 12, 13, 11, 12] \<and>
   snd (lbStateReducer 100 modDefs (modsState [11, 50, 12, 13]) (addGeneralMods sevenMods)) =
     [\<lparr>ntype = Warning, title = T ''LoadoutBuilder.UnableToAddAllMods'' [],
       body = T ''LoadoutBuilder.UnableToAddAllModsBody''
         [(''mods'', ''Recovery, Discipline, Intellect, Strength, Minor Mobility'')]\<rparr>] \<and>
   generalModsCount 100 modDefs
     (stateMods (fst (lbStateReducer 100 modDefs (modsState [11, 50, 12, 13]) (addGeneralMods sevenMods)))) = 5"
proof -
  have three: "generalModsCount 100 modDefs (stateMods (modsState [11, 50, 12, 13])) = 3"
    by (simp add: generalModsCount_def isGeneralMod_def modDefs_def sevenMods_def modDef_def
        stateMods_def modsState_def emptyParameters_def)
  have mods: "stateMods (modsState [11, 50, 12, 13]) = [11, 50, 12, 13]"
    by (simp add: stateMods_def modsState_def emptyParameters_def)
  have count: "generalModsCount 100 modDefs [11, 50, 12, 13, 11, 12] = 5"
    by (simp add: generalModsCount_def isGeneralMod_def modDefs_def sevenMods_def modDef_def)
  from three have le: "generalModsCount 100 modDefs (stateMods (modsState [11, 50, 12, 13])) \<le> 5"
    by simp
  show ?thesis
    using addGeneralMods_cap [OF le, of sevenMods] three mods count
    by (simp add: sevenMods_def modDef_def unableToAddAllMods_def)
qed

text \<open>
  C1 as stated, for every state, fails: \<open>lockedModsChanged\<close> with 6 general mods gives a
  state with 6 of them, from which \<open>addGeneralMods\<close> appends nothing and leaves the 6.
\<close>

theorem addGeneralMods_cap_counterexample:
  "fst (lbStateReducer 100 modDefs (modsState []) (lockedModsChanged (take 6 sevenMods))) =
     modsState [11, 12, 13, 14, 15, 16] \<and>
   generalModsCount 100 modDefs
     (stateMods (fst (lbStateReducer 100 modDefs (modsState [11, 12, 13, 14, 15, 16])
        (addGeneralMods [modDef 17 ''Minor Mobility'' 100])))) = 6 \<and>
   \<not> generalModsCount 100 modDefs
     (stateMods (fst (lbStateReducer 100 modDefs (modsState [11, 12, 13, 14, 15, 16])
        (addGeneralMods [modDef 17 ''Minor Mobility'' 100])))) \<le> 5"
proof -
  have mods: "stateMods (modsState [11, 12, 13, 14, 15, 16]) = [11, 12, 13, 14, 15, 16]"
    by (simp add: stateMods_def modsState_def emptyParameters_def)
  have count: "generalModsCount 100 modDefs [11, 12, 13, 14, 15, 16] = 6"
    by (simp add: generalModsCount_def isGeneralMod_def modDefs_def sevenMods_def modDef_def)
  have locked: "fst (lbStateReducer 100 modDefs (modsState []) (lockedModsChanged (take 6 sevenMods))) =
     modsState [11, 12, 13, 14, 15, 16]"
    by (simp add: modsState_def mergeLoadoutParameters_def spread_def noPatch_def over_def
        emptyParameters_def sevenMods_def modDef_def demoInitialState_def demoLoadout_def)
  show ?thesis
    unfolding addGeneralMods_result using locked by (simp add: stateMods_merge mods count)
qed

section \<open>Properties of the initial loadout\<close>

subsection \<open>The three branches\<close>

lemma useInitialLoadout_prior:
  "nav_state inp = Some st \<Longrightarrow> nav_loadout st = Some l \<Longrightarrow>
   useInitialLoadout c inp = ((preloadedLoadout c inp l, nav_storeId st), [])"
  by (simp add: useInitialLoadout_def)

lemma useInitialLoadout_shared:
  "noPriorLoadout inp \<Longrightarrow> sharedLoadout c inp = (Some parsed, effects) \<Longrightarrow>
   useInitialLoadout c inp = ((parsed, None), effects)"
  by (auto simp: useInitialLoadout_def noPriorLoadout_def split: option.splits)

lemma useInitialLoadout_constructed:
  "noPriorLoadout inp \<Longrightarrow> sharedLoadout c inp = (None, effects) \<Longrightarrow>
   useInitialLoadout c inp =
     ((fst (constructedLoadout c inp), None), effects @ snd (constructedLoadout c inp))"
  by (auto simp: useInitialLoadout_def noPriorLoadout_def case_prod_unfold Let_def split: option.splits)

lemma constructed_parameters:
  "parameters (fst (constructedLoadout c inp)) = fst (urlLoadoutParameters c inp)"
  by (simp add: constructedLoadout_def Let_def case_prod_unfold)

lemma constructed_effects:
  "snd (constructedLoadout c inp) = snd (urlSubclass c inp) @ snd (urlLoadoutParameters c inp)"
  by (simp add: constructedLoadout_def Let_def case_prod_unfold)

subsection \<open>The loadout of the navigation state\<close>

lemma preloaded_fields:
  "preloadedLoadout c inp l = l\<lparr>parameters := parameters (preloadedLoadout c inp l)\<rparr>"
  by (simp add: preloadedLoadout_def split: option.splits)

lemma preloaded_parametersField:
  assumes "\<And>p x. f (spread p (noPatch\<lparr>patch_exoticArmorHash := Some (Some x)\<rparr>)) =
             (case p of None \<Rightarrow> None | Some q \<Rightarrow> f q)"
  shows "parametersField f (preloadedLoadout c inp l) = parametersField f l"
  using assms by (simp add: preloadedLoadout_def parametersField_def split: option.splits)

lemma spread_exotic_fields:
  "statConstraints (spread p (noPatch\<lparr>patch_exoticArmorHash := Some (Some x)\<rparr>)) =
     (case p of None \<Rightarrow> None | Some q \<Rightarrow> statConstraints q)"
  "mods (spread p (noPatch\<lparr>patch_exoticArmorHash := Some (Some x)\<rparr>)) =
     (case p of None \<Rightarrow> None | Some q \<Rightarrow> mods q)"
  "query (spread p (noPatch\<lparr>patch_exoticArmorHash := Some (Some x)\<rparr>)) =
     (case p of None \<Rightarrow> None | Some q \<Rightarrow> query q)"
  "assumeArmorMasterwork (spread p (noPatch\<lparr>patch_exoticArmorHash := Some (Some x)\<rparr>)) =
     (case p of None \<Rightarrow> None | Some q \<Rightarrow> assumeArmorMasterwork q)"
  "lockArmorEnergyType (spread p (noPatch\<lparr>patch_exoticArmorHash := Some (Some x)\<rparr>)) =
     (case p of None \<Rightarrow> None | Some q \<Rightarrow> lockArmorEnergyType q)"
  by (simp_all add: spread_def noPatch_def over_def emptyParameters_def Let_def split: option.splits)

lemma preloaded_unsanitized:
  "parametersField statConstraints (preloadedLoadout c inp l) = parametersField statConstraints l"
  "parametersField mods (preloadedLoadout c inp l) = parametersField mods l"
  "parametersField query (preloadedLoadout c inp l) = parametersField query l"
  "parametersField assumeArmorMasterwork (preloadedLoadout c inp l) = parametersField assumeArmorMasterwork l"
  "parametersField lockArmorEnergyType (preloadedLoadout c inp l) = parametersField lockArmorEnergyType l"
  by (rule preloaded_parametersField, rule spread_exotic_fields)+

lemma preloaded_has_exotic: "hasExoticArmorHash l \<Longrightarrow> preloadedLoadout c inp l = l"
  by (simp add: preloadedLoadout_def split: option.splits)

lemma preloaded_no_exotic:
  "(case hook_defs inp of
      None \<Rightarrow> True
    | Some d \<Rightarrow> equippedExotic d (LockableBucketHashes c) l = None) \<Longrightarrow>
   preloadedLoadout c inp l = l"
  by (simp add: preloadedLoadout_def split: option.splits)

lemma preloaded_indep:
  "preloadedLoadout
     (c\<lparr>parseLoadoutFromURLParam := f, JSON_parse_subclass := g, JSON_parse_parameters := h\<rparr>)
     (inp\<lparr>searchParams := ps\<rparr>) l = preloadedLoadout c inp l"
  by (simp add: preloadedLoadout_def split: option.splits)

lemma preloaded_parameters_None:
  "parameters l = None \<Longrightarrow>
   parameters (preloadedLoadout c inp l) =
     (case hook_defs inp of
        None \<Rightarrow> None
      | Some d \<Rightarrow>
          (case equippedExotic d (LockableBucketHashes c) l of
             None \<Rightarrow> None
           | Some x \<Rightarrow> Some (emptyParameters\<lparr>exoticArmorHash := Some (int (def_hash x))\<rparr>)))"
  by (simp add: preloadedLoadout_def hasExoticArmorHash_def spread_def noPatch_def over_def
      emptyParameters_def split: option.splits)

lemma preloaded_parameters_Some:
  "parameters l \<noteq> None \<Longrightarrow> parameters (preloadedLoadout c inp l) \<noteq> None"
  by (simp add: preloadedLoadout_def split: option.splits)

lemma demo_prior:
  "useInitialLoadout demoCollaborators (demoInputs (Some priorState) [(''l'', ''shared'')]) =
     ((demoLoadout, Some ''store-1''), [])"
  by (simp add: useInitialLoadout_def demoInputs_def priorState_def preloadedLoadout_def
      hasExoticArmorHash_def demoLoadout_def equippedExotic_def)

text \<open>
  C3. When the navigation state carries a loadout, the hook returns that loadout and the
  store id of the navigation state, with no effect, whatever the query string holds and
  whatever the decoders would do: the result is the same for every query string and all
  decoders, so the parameter \<open>l\<close> is not decoded. The loadout returned is the one passed,
  but for the parameter \<open>exoticArmorHash\<close>, which the branch fills in from an equipped exotic
  when the loadout has none; a loadout that has one, or for which no equipped exotic is
  found or the definitions are not loaded, is returned as it is. Next in
  precedence, without a loadout in the navigation state, a parameter \<open>l\<close> that decodes
  is returned, whatever the other query parameters are.
\<close>

theorem prior_loadout_wins:
  "(nav_state inp = Some st \<and> nav_loadout st = Some l \<longrightarrow>
      useInitialLoadout c inp = ((preloadedLoadout c inp l, nav_storeId st), []) \<and>
      useInitialLoadout
        (c\<lparr>parseLoadoutFromURLParam := f, JSON_parse_subclass := g, JSON_parse_parameters := h\<rparr>)
        (inp\<lparr>searchParams := ps\<rparr>) = useInitialLoadout c inp \<and>
      preloadedLoadout c inp l = l\<lparr>parameters := parameters (preloadedLoadout c inp l)\<rparr> \<and>
      parametersField statConstraints (preloadedLoadout c inp l) = parametersField statConstraints l \<and>
      parametersField mods (preloadedLoadout c inp l) = parametersField mods l \<and>
      parametersField query (preloadedLoadout c inp l) = parametersField query l \<and>
      parametersField assumeArmorMasterwork (preloadedLoadout c inp l) =
        parametersField assumeArmorMasterwork l \<and>
      parametersField lockArmorEnergyType (preloadedLoadout c inp l) =
        parametersField lockArmorEnergyType l \<and>
      (hasExoticArmorHash l \<longrightarrow> preloadedLoadout c inp l = l) \<and>
      ((case hook_defs inp of
          None \<Rightarrow> True
        | Some d \<Rightarrow> equippedExotic d (LockableBucketHashes c) l = None) \<longrightarrow>
       preloadedLoadout c inp l = l)) \<and>
   (noPriorLoadout inp \<and> searchGet (searchParams inp) ''l'' = Some json \<and> json \<noteq> [] \<and>
    parseLoadoutFromURLParam c json = Inr (Some parsed) \<longrightarrow>
      useInitialLoadout c inp = ((parsed, None), []))"
proof (intro conjI impI)
  assume a: "nav_state inp = Some st \<and> nav_loadout st = Some l"
  then show "useInitialLoadout c inp = ((preloadedLoadout c inp l, nav_storeId st), [])"
    by (simp add: useInitialLoadout_prior)
  from a show "useInitialLoadout
        (c\<lparr>parseLoadoutFromURLParam := f, JSON_parse_subclass := g, JSON_parse_parameters := h\<rparr>)
        (inp\<lparr>searchParams := ps\<rparr>) = useInitialLoadout c inp"
    by (simp add: useInitialLoadout_def preloaded_indep)
  show "preloadedLoadout c inp l = l\<lparr>parameters := parameters (preloadedLoadout c inp l)\<rparr>"
    by (rule preloaded_fields)
next
  assume "noPriorLoadout inp \<and> searchGet (searchParams inp) ''l'' = Some json \<and> json \<noteq> [] \<and>
    parseLoadoutFromURLParam c json = Inr (Some parsed)"
  then have "noPriorLoadout inp" and "sharedLoadout c inp = (Some parsed, [])"
    by (simp_all add: sharedLoadout_def)
  then show "useInitialLoadout c inp = ((parsed, None), [])"
    by (rule useInitialLoadout_shared)
qed (simp_all add: preloaded_unsanitized preloaded_has_exotic preloaded_no_exotic)

theorem prior_loadout_wins_witness:
  "searchGet (searchParams (demoInputs (Some priorState) [(''l'', ''shared'')])) ''l'' = Some ''shared'' \<and>
   parseLoadoutFromURLParam demoCollaborators ''shared'' = Inr (Some sharedDemoLoadout) \<and>
   useInitialLoadout demoCollaborators (demoInputs (Some priorState) [(''l'', ''shared'')]) =
     ((demoLoadout, Some ''store-1''), []) \<and>
   useInitialLoadout demoCollaborators (demoInputs None [(''l'', ''shared''), (''p'', ''params'')]) =
     ((sharedDemoLoadout, None), [])"
  using prior_loadout_wins [of "demoInputs (Some priorState) [(''l'', ''shared'')]" priorState
      demoLoadout demoCollaborators]
    prior_loadout_wins [of "demoInputs None [(''l'', ''shared''), (''p'', ''params'')]" _ _
      demoCollaborators _ _ _ _ "''shared''" sharedDemoLoadout]
    demo_prior
  by (simp add: demoInputs_def priorState_def demoCollaborators_def searchGet_def noPriorLoadout_def)

subsection \<open>Sanitized parameters\<close>

lemma stripBounds_Inr:
  "stripBounds cs = Inr cs' \<Longrightarrow>
   cs' = map (map_option withoutBounds) cs \<and> list_all (\<lambda>entry. entry \<noteq> None) cs"
proof (induction cs arbitrary: cs')
  case Nil
  then show ?case by simp
next
  case (Cons entry cs)
  show ?case
  proof (cases entry)
    case None
    with Cons.prems show ?thesis by simp
  next
    case (Some constraint)
    with Cons.prems obtain rest where rest: "stripBounds cs = Inr rest"
      and cs': "cs' = Some (constraint\<lparr>maxTier := None, minTier := None\<rparr>) # rest"
      by (auto split: sum.splits)
    from Cons.IH [OF rest] Some cs' show ?thesis
      by (simp add: withoutBounds_def)
  qed
qed

lemma stripBounds_returns:
  "list_all (\<lambda>entry. entry \<noteq> None) cs \<Longrightarrow> \<exists>cs'. stripBounds cs = Inr cs'"
  by (induction cs) auto

lemma sanitize_Inr_fields:
  assumes "sanitizeLoadoutParameters p = Inr p'"
  shows "query p' =
           (case query p of
              None \<Rightarrow> None
            | Some q \<Rightarrow> if q \<noteq> [] \<and> length q > 2048 then Some [] else Some q)"
    and "assumeArmorMasterwork p' = None" and "lockArmorEnergyType p' = None"
    and "mods p' = mods p" and "exoticArmorHash p' = exoticArmorHash p"
  using assms
  by (auto simp: sanitizeLoadoutParameters_def Let_def
      split: option.splits sum.splits statConstraintsValue.splits)

lemma sanitize_Inr_constraints:
  assumes "sanitizeLoadoutParameters p = Inr p'"
  shows "statConstraints p \<noteq> Some NotIterable"
    and "statConstraints p = None \<Longrightarrow> statConstraints p' = None"
    and "statConstraints p = Some (Constraints cs) \<Longrightarrow>
           statConstraints p' = Some (Constraints (map (map_option withoutBounds) cs)) \<and>
           list_all (\<lambda>entry. entry \<noteq> None) cs"
  using assms
  by (auto simp: sanitizeLoadoutParameters_def Let_def dest: stripBounds_Inr
      split: option.splits sum.splits statConstraintsValue.splits)

lemma sanitize_returns:
  assumes "wellFormedConstraints p"
  shows "\<exists>p'. sanitizeLoadoutParameters p = Inr p'"
proof (cases "statConstraints p")
  case None
  then show ?thesis by (simp add: sanitizeLoadoutParameters_def Let_def)
next
  case (Some v)
  show ?thesis
  proof (cases v)
    case NotIterable
    with Some assms show ?thesis by (simp add: wellFormedConstraints_def)
  next
    case (Constraints cs)
    with Some assms have "list_all (\<lambda>entry. entry \<noteq> None) cs"
      by (simp add: wellFormedConstraints_def)
    then obtain cs' where "stripBounds cs = Inr cs'"
      using stripBounds_returns by blast
    with Some Constraints show ?thesis
      by (simp add: sanitizeLoadoutParameters_def Let_def)
  qed
qed

text \<open>What the hook does with a parameter \<open>p\<close> that parses, by the outcome of the sanitizer.\<close>

lemma urlLoadoutParameters_parsed:
  assumes "searchGet (searchParams inp) ''p'' = Some json" "json \<noteq> []"
    "JSON_parse_parameters c json = Inr parsed"
  shows "urlLoadoutParameters c inp =
           (case sanitizeLoadoutParameters
                   (spread (Some (defaultLoadoutParameters c)) (asPatch parsed)) of
              Inr sanitized \<Rightarrow> (Some sanitized, [])
            | Inl message \<Rightarrow> (Some parsed, [badLoadoutShare message]))"
  using assms by (simp add: urlLoadoutParameters_def)

lemma demo_url_parameters:
  "spread (Some demoDefaults) (asPatch urlDemoParameters) =
     \<lparr>statConstraints = Some (Constraints [Some \<lparr>statHash = 100, minTier = Some 2, maxTier = Some 10\<rparr>]),
      mods = Some [], query = Some (replicate 3000 CHR ''a''), assumeArmorMasterwork = Some 2,
      exoticArmorHash = None, lockArmorEnergyType = Some 2\<rparr>"
  by (simp add: spread_def asPatch_def demoDefaults_def urlDemoParameters_def over_def)

lemma demo_sanitized:
  "sanitizeLoadoutParameters (spread (Some demoDefaults) (asPatch urlDemoParameters)) =
     Inr \<lparr>statConstraints = Some (Constraints [Some \<lparr>statHash = 100, minTier = None, maxTier = None\<rparr>]),
          mods = Some [], query = Some [], assumeArmorMasterwork = None,
          exoticArmorHash = None, lockArmorEnergyType = None\<rparr>"
  by (simp add: demo_url_parameters sanitizeLoadoutParameters_def)

lemma demo_null_constraint:
  "sanitizeLoadoutParameters (spread (Some demoDefaults) (asPatch nullConstraintParameters)) =
     Inl nullEntryMessage"
  by (simp add: spread_def asPatch_def demoDefaults_def nullConstraintParameters_def
      urlDemoParameters_def over_def sanitizeLoadoutParameters_def)

text \<open>
  C4, for the parameters the sanitizer accepts. Whenever \<open>sanitizeLoadoutParameters\<close>
  returns, its result has the empty string for a query longer than 2048 characters and the
  query as it was otherwise; it has every stat constraint, at its place, with its
  \<open>statHash\<close> and without \<open>minTier\<close> and \<open>maxTier\<close>; it has neither \<open>assumeArmorMasterwork\<close>
  nor \<open>lockArmorEnergyType\<close>; \<open>mods\<close> and \<open>exoticArmorHash\<close> are as they were. It returns
  whenever the stat constraints are missing or a list of constraints. The hook applies it
  to the parameters parsed from the query parameter \<open>p\<close>, merged over the defaults, and
  returns the sanitized parameters when it returns. A loadout decoded from the query
  parameter \<open>l\<close> is returned with the parameters it was decoded with, and a loadout
  passed in the navigation state keeps its query, stat constraints,
  \<open>assumeArmorMasterwork\<close> and \<open>lockArmorEnergyType\<close>.
\<close>

theorem sanitize_url_parameters:
  "(sanitizeLoadoutParameters p = Inr p' \<longrightarrow>
      (query p = Some q \<and> length q > 2048 \<longrightarrow> query p' = Some []) \<and>
      (query p = Some q \<and> length q \<le> 2048 \<longrightarrow> query p' = Some q) \<and>
      (query p = None \<longrightarrow> query p' = None) \<and>
      (statConstraints p = Some (Constraints cs) \<longrightarrow>
         statConstraints p' = Some (Constraints (map (map_option withoutBounds) cs)) \<and>
         list_all (\<lambda>entry. entry \<noteq> None) cs) \<and>
      (statConstraints p = None \<longrightarrow> statConstraints p' = None) \<and>
      assumeArmorMasterwork p' = None \<and>
      lockArmorEnergyType p' = None \<and>
      mods p' = mods p \<and>
      exoticArmorHash p' = exoticArmorHash p) \<and>
   (wellFormedConstraints p \<longrightarrow> (\<exists>p'. sanitizeLoadoutParameters p = Inr p')) \<and>
   (noPriorLoadout inp \<and> fst (sharedLoadout c inp) = None \<and>
    searchGet (searchParams inp) ''p'' = Some json \<and> json \<noteq> [] \<and>
    JSON_parse_parameters c json = Inr parsed \<and>
    sanitizeLoadoutParameters (spread (Some (defaultLoadoutParameters c)) (asPatch parsed)) =
      Inr sanitized \<longrightarrow>
      parameters (fst (fst (useInitialLoadout c inp))) = Some sanitized \<and>
      snd (urlLoadoutParameters c inp) = []) \<and>
   (noPriorLoadout inp \<and> sharedLoadout c inp = (Some decoded, effects) \<longrightarrow>
      parameters (fst (fst (useInitialLoadout c inp))) = parameters decoded) \<and>
   (nav_state inp = Some st \<and> nav_loadout st = Some l \<longrightarrow>
      parametersField query (fst (fst (useInitialLoadout c inp))) = parametersField query l \<and>
      parametersField statConstraints (fst (fst (useInitialLoadout c inp))) =
        parametersField statConstraints l \<and>
      parametersField assumeArmorMasterwork (fst (fst (useInitialLoadout c inp))) =
        parametersField assumeArmorMasterwork l \<and>
      parametersField lockArmorEnergyType (fst (fst (useInitialLoadout c inp))) =
        parametersField lockArmorEnergyType l)"
proof -
  have fields:
    "(query p = Some q \<and> length q > 2048 \<longrightarrow> query p' = Some []) \<and>
     (query p = Some q \<and> length q \<le> 2048 \<longrightarrow> query p' = Some q) \<and>
     (query p = None \<longrightarrow> query p' = None) \<and>
     (statConstraints p = Some (Constraints cs) \<longrightarrow>
        statConstraints p' = Some (Constraints (map (map_option withoutBounds) cs)) \<and>
        list_all (\<lambda>entry. entry \<noteq> None) cs) \<and>
     (statConstraints p = None \<longrightarrow> statConstraints p' = None) \<and>
     assumeArmorMasterwork p' = None \<and>
     lockArmorEnergyType p' = None \<and>
     mods p' = mods p \<and>
     exoticArmorHash p' = exoticArmorHash p"
    if san: "sanitizeLoadoutParameters p = Inr p'"
    using sanitize_Inr_fields [OF san] sanitize_Inr_constraints(2,3) [OF san]
    by auto
  have url: "parameters (fst (fst (useInitialLoadout c inp))) = Some sanitized \<and>
      snd (urlLoadoutParameters c inp) = []"
    if "noPriorLoadout inp" "fst (sharedLoadout c inp) = None"
      "searchGet (searchParams inp) ''p'' = Some json" "json \<noteq> []"
      "JSON_parse_parameters c json = Inr parsed"
      "sanitizeLoadoutParameters (spread (Some (defaultLoadoutParameters c)) (asPatch parsed)) =
         Inr sanitized"
  proof -
    from that(2) have "sharedLoadout c inp = (None, snd (sharedLoadout c inp))"
      by (simp add: prod_eq_iff)
    from useInitialLoadout_constructed [OF that(1) this]
    have "parameters (fst (fst (useInitialLoadout c inp))) = fst (urlLoadoutParameters c inp)"
      by (simp add: constructed_parameters)
    with urlLoadoutParameters_parsed [OF that(3-5)] that(6) show ?thesis by simp
  qed
  have shared: "parameters (fst (fst (useInitialLoadout c inp))) = parameters decoded"
    if "noPriorLoadout inp" "sharedLoadout c inp = (Some decoded, effects)"
    using useInitialLoadout_shared [OF that] by simp
  have prior:
    "parametersField query (fst (fst (useInitialLoadout c inp))) = parametersField query l \<and>
     parametersField statConstraints (fst (fst (useInitialLoadout c inp))) =
       parametersField statConstraints l \<and>
     parametersField assumeArmorMasterwork (fst (fst (useInitialLoadout c inp))) =
       parametersField assumeArmorMasterwork l \<and>
     parametersField lockArmorEnergyType (fst (fst (useInitialLoadout c inp))) =
       parametersField lockArmorEnergyType l"
    if "nav_state inp = Some st" "nav_loadout st = Some l"
    using that by (simp add: useInitialLoadout_prior preloaded_unsanitized)
  from fields url shared prior sanitize_returns [of p] show ?thesis
    by blast
qed

theorem sanitize_url_parameters_witness:
  "query urlDemoParameters = Some (replicate 3000 CHR ''a'') \<and>
   statConstraints urlDemoParameters =
     Some (Constraints [Some \<lparr>statHash = 100, minTier = Some 2, maxTier = Some 10\<rparr>]) \<and>
   wellFormedConstraints (spread (Some demoDefaults) (asPatch urlDemoParameters)) \<and>
   parameters (fst (fst (useInitialLoadout demoCollaborators (demoInputs None [(''p'', ''params'')])))) =
     Some \<lparr>statConstraints = Some (Constraints [Some \<lparr>statHash = 100, minTier = None, maxTier = None\<rparr>]),
           mods = Some [], query = Some [], assumeArmorMasterwork = None,
           exoticArmorHash = None, lockArmorEnergyType = None\<rparr>"
proof -
  let ?inp = "demoInputs None [(''p'', ''params'')]"
  let ?sanitized =
    "\<lparr>statConstraints = Some (Constraints [Some \<lparr>statHash = 100, minTier = None, maxTier = None\<rparr>]),
      mods = Some [], query = Some [], assumeArmorMasterwork = None,
      exoticArmorHash = None, lockArmorEnergyType = None\<rparr>"
  have dflt: "defaultLoadoutParameters demoCollaborators = demoDefaults"
    by (simp add: demoCollaborators_def)
  have pre: "noPriorLoadout ?inp \<and> fst (sharedLoadout demoCollaborators ?inp) = None \<and>
      searchGet (searchParams ?inp) ''p'' = Some ''params'' \<and> ''params'' \<noteq> [] \<and>
      JSON_parse_parameters demoCollaborators ''params'' = Inr urlDemoParameters \<and>
      sanitizeLoadoutParameters
        (spread (Some (defaultLoadoutParameters demoCollaborators)) (asPatch urlDemoParameters)) =
        Inr ?sanitized"
    unfolding dflt demo_sanitized
    by (simp add: demoInputs_def demoCollaborators_def searchGet_def noPriorLoadout_def
        sharedLoadout_def)
  have wf: "wellFormedConstraints (spread (Some demoDefaults) (asPatch urlDemoParameters))"
    by (simp add: demo_url_parameters wellFormedConstraints_def)
  from sanitize_url_parameters [of _ _ _ _ ?inp demoCollaborators "''params''" urlDemoParameters
      ?sanitized] pre
  have "parameters (fst (fst (useInitialLoadout demoCollaborators ?inp))) = Some ?sanitized"
    by blast
  with wf show ?thesis by (simp add: urlDemoParameters_def)
qed

text \<open>
  C4 as stated, for every parameters object of a share link or a URL and with a sanitizer
  that never fails, fails twice. A parameter \<open>p\<close> whose stat constraints have a \<^verbatim>\<open>null\<close>
  entry parses, the sanitizer throws on it, and the loadout has the parameters as they
  were parsed: the query of 3000 characters and \<open>assumeArmorMasterwork\<close> are still there.
  And a loadout decoded from the parameter \<open>l\<close> with such parameters is returned with
  them.
\<close>

theorem sanitize_url_parameters_counterexample:
  "JSON_parse_parameters demoCollaborators ''null-constraint'' = Inr nullConstraintParameters \<and>
   sanitizeLoadoutParameters (spread (Some demoDefaults) (asPatch nullConstraintParameters)) =
     Inl nullEntryMessage \<and>
   useInitialLoadout demoCollaborators (demoInputs None [(''p'', ''null-constraint'')]) =
     ((\<lparr>loadout_id = ''lo-3'', loadout_name = [], classType = Num 3, loadout_items = [],
        parameters = Some nullConstraintParameters, loadout_notes = None\<rparr>, None),
      [badLoadoutShare nullEntryMessage]) \<and>
   query nullConstraintParameters = Some (replicate 3000 CHR ''a'') \<and>
   assumeArmorMasterwork nullConstraintParameters = Some 2 \<and>
   lockArmorEnergyType nullConstraintParameters = Some 2 \<and>
   parseLoadoutFromURLParam demoCollaborators ''shared-long'' = Inr (Some sharedLongLoadout) \<and>
   useInitialLoadout demoCollaborators (demoInputs None [(''l'', ''shared-long'')]) =
     ((sharedLongLoadout, None), []) \<and>
   parametersField query sharedLongLoadout = Some (replicate 3000 CHR ''a'') \<and>
   parametersField assumeArmorMasterwork sharedLongLoadout = Some 2"
proof -
  let ?inp = "demoInputs None [(''p'', ''null-constraint'')]"
  have dflt: "defaultLoadoutParameters demoCollaborators = demoDefaults"
    by (simp add: demoCollaborators_def)
  have np: "noPriorLoadout ?inp"
    by (simp add: demoInputs_def noPriorLoadout_def)
  have shared: "sharedLoadout demoCollaborators ?inp = (None, [])"
    by (simp add: sharedLoadout_def demoInputs_def searchGet_def)
  have parsed: "JSON_parse_parameters demoCollaborators ''null-constraint'' = Inr nullConstraintParameters"
    by (simp add: demoCollaborators_def)
  have get: "searchGet (searchParams ?inp) ''p'' = Some ''null-constraint''"
    by (simp add: demoInputs_def searchGet_def)
  have url: "urlLoadoutParameters demoCollaborators ?inp =
      (Some nullConstraintParameters, [badLoadoutShare nullEntryMessage])"
    using urlLoadoutParameters_parsed [OF get _ parsed]
    by (simp add: dflt demo_null_constraint)
  have con: "constructedLoadout demoCollaborators ?inp =
      (\<lparr>loadout_id = ''lo-3'', loadout_name = [], classType = Num 3, loadout_items = [],
        parameters = Some nullConstraintParameters, loadout_notes = None\<rparr>,
       [badLoadoutShare nullEntryMessage])"
    unfolding constructedLoadout_def url
    by (simp add: demoInputs_def demoCollaborators_def searchGet_def urlSubclass_def
        classFromExotic_def nullConstraintParameters_def urlDemoParameters_def truthy_def
        DestinyClass_Unknown_def)
  have first: "useInitialLoadout demoCollaborators ?inp =
     ((\<lparr>loadout_id = ''lo-3'', loadout_name = [], classType = Num 3, loadout_items = [],
        parameters = Some nullConstraintParameters, loadout_notes = None\<rparr>, None),
      [badLoadoutShare nullEntryMessage])"
    using useInitialLoadout_constructed [OF np shared] by (simp add: con)
  have second: "useInitialLoadout demoCollaborators (demoInputs None [(''l'', ''shared-long'')]) =
     ((sharedLongLoadout, None), [])"
    by (rule useInitialLoadout_shared)
      (simp_all add: noPriorLoadout_def demoInputs_def sharedLoadout_def searchGet_def
        demoCollaborators_def)
  show ?thesis
    using first second parsed demo_null_constraint
    by (simp add: nullConstraintParameters_def urlDemoParameters_def parametersField_def
        sharedLongLoadout_def demoCollaborators_def)
qed

subsection \<open>A share link that does not decode\<close>

lemma map_of_withoutParam: "k' \<noteq> k \<Longrightarrow> map_of (withoutParam k ps) k' = map_of ps k'"
  by (induction ps) (auto simp: withoutParam_def)

lemma searchGet_withoutParam:
  "k' \<noteq> k \<Longrightarrow> searchGet (withoutParam k ps) k' = searchGet ps k'"
  by (simp add: searchGet_def map_of_withoutParam)

lemma searchGet_withoutParam_same: "searchGet (withoutParam k ps) k = None"
  by (induction ps) (auto simp: searchGet_def withoutParam_def)

lemma urlSubclass_indep:
  "urlSubclass (c\<lparr>parseLoadoutFromURLParam := f\<rparr>) (inp\<lparr>searchParams := withoutParam ''l'' (searchParams inp)\<rparr>) =
     urlSubclass c inp"
  by (simp add: urlSubclass_def searchGet_withoutParam split: option.splits sum.splits)

lemma urlLoadoutParameters_indep:
  "urlLoadoutParameters (c\<lparr>parseLoadoutFromURLParam := f\<rparr>)
     (inp\<lparr>searchParams := withoutParam ''l'' (searchParams inp)\<rparr>) = urlLoadoutParameters c inp"
  by (simp add: urlLoadoutParameters_def searchGet_withoutParam split: option.splits sum.splits)

lemma classFromExotic_indep:
  "classFromExotic (inp\<lparr>searchParams := ps\<rparr>) ct p = classFromExotic inp ct p"
  by (simp add: classFromExotic_def)

lemma constructed_indep:
  "constructedLoadout (c\<lparr>parseLoadoutFromURLParam := f\<rparr>)
     (inp\<lparr>searchParams := withoutParam ''l'' (searchParams inp)\<rparr>) = constructedLoadout c inp"
  unfolding constructedLoadout_def urlSubclass_indep urlLoadoutParameters_indep classFromExotic_indep
  by (simp add: searchGet_withoutParam Let_def case_prod_unfold split: option.splits)

lemma noPrior_indep: "noPriorLoadout (inp\<lparr>searchParams := ps\<rparr>) = noPriorLoadout inp"
  by (simp add: noPriorLoadout_def)

lemma shared_without:
  "sharedLoadout c (inp\<lparr>searchParams := withoutParam ''l'' (searchParams inp)\<rparr>) = (None, [])"
  by (simp add: sharedLoadout_def searchGet_withoutParam_same)

lemma useInitialLoadout_without:
  assumes "noPriorLoadout inp"
  shows "useInitialLoadout c (inp\<lparr>searchParams := withoutParam ''l'' (searchParams inp)\<rparr>) =
           ((fst (constructedLoadout c inp), None), snd (constructedLoadout c inp))"
proof -
  have "noPriorLoadout (inp\<lparr>searchParams := withoutParam ''l'' (searchParams inp)\<rparr>)"
    using assms by (simp add: noPrior_indep)
  from useInitialLoadout_constructed [OF this shared_without]
  show ?thesis
    using constructed_indep [where c = c and f = "parseLoadoutFromURLParam c" and inp = inp] by simp
qed

lemma urlSubclass_decodes:
  "decodes (JSON_parse_subclass c) (searchGet (searchParams inp) ''s'') \<Longrightarrow> snd (urlSubclass c inp) = []"
  by (auto simp: decodes_def urlSubclass_def split: option.splits sum.splits)

lemma urlLoadoutParameters_decodes:
  "parametersDecode c (searchGet (searchParams inp) ''p'') \<Longrightarrow>
   snd (urlLoadoutParameters c inp) = []"
  by (auto simp: parametersDecode_def urlLoadoutParameters_def split: option.splits sum.splits)

lemma urlSubclass_errors:
  "errorNotifications (snd (urlSubclass c inp)) =
     (if decodes (JSON_parse_subclass c) (searchGet (searchParams inp) ''s'') then 0 else 1)"
  by (auto simp: decodes_def urlSubclass_def errorNotifications_def badLoadoutShare_def
      split: option.splits sum.splits)

lemma urlLoadoutParameters_errors:
  "errorNotifications (snd (urlLoadoutParameters c inp)) =
     (if parametersDecode c (searchGet (searchParams inp) ''p'') then 0 else 1)"
  by (auto simp: parametersDecode_def urlLoadoutParameters_def errorNotifications_def
      badLoadoutShare_def split: option.splits sum.splits)

lemma demo_constructed:
  "constructedLoadout demoCollaborators (demoInputs None ps) =
     (\<lparr>loadout_id = ''lo-3'', loadout_name = [], classType = DestinyClass_Unknown, loadout_items = [],
       parameters = Some emptyParameters, loadout_notes = None\<rparr>,
      snd (urlSubclass demoCollaborators (demoInputs None ps)))"
  if "searchGet ps ''class'' = None" "searchGet ps ''n'' = None" "searchGet ps ''p'' = None"
  using that
  by (simp add: constructedLoadout_def demoInputs_def demoCollaborators_def urlLoadoutParameters_def
      classFromExotic_def emptyParameters_def truthy_def urlSubclass_def Let_def case_prod_unfold
      split: option.splits)

text \<open>
  C5, counting every notification. When the navigation state carries no loadout and the
  decoder of the parameter \<open>l\<close> throws, the hook returns: it shows one error notification
  with the message of the failure, calls \<^verbatim>\<open>navigate(pathname, { replace: true })\<close> once,
  which takes the parameter off the URL, and returns the loadout made of the other query
  parameters and the saved parameters, the one it returns for the same query string
  without \<open>l\<close>. The parameters \<open>s\<close> and \<open>p\<close> add one error notification each when their
  decoding throws, for \<open>p\<close> in \<^verbatim>\<open>JSON.parse\<close> or in the sanitizer; when neither does, the
  notification of the share link is the only one.
\<close>

theorem share_decode_failure:
  "noPriorLoadout inp \<and> searchGet (searchParams inp) ''l'' = Some json \<and> json \<noteq> [] \<and>
   parseLoadoutFromURLParam c json = Inl message \<longrightarrow>
     useInitialLoadout c inp =
       ((fst (constructedLoadout c inp), None),
        badLoadoutShare message # navigate (pathname inp) True #
        (snd (urlSubclass c inp) @ snd (urlLoadoutParameters c inp))) \<and>
     errorNotifications (snd (useInitialLoadout c inp)) =
       1 + (if decodes (JSON_parse_subclass c) (searchGet (searchParams inp) ''s'') then 0 else 1) +
       (if parametersDecode c (searchGet (searchParams inp) ''p'') then 0 else 1) \<and>
     (decodes (JSON_parse_subclass c) (searchGet (searchParams inp) ''s'') \<and>
      parametersDecode c (searchGet (searchParams inp) ''p'') \<longrightarrow>
        snd (useInitialLoadout c inp) = [badLoadoutShare message, navigate (pathname inp) True] \<and>
        errorNotifications (snd (useInitialLoadout c inp)) = 1) \<and>
     fst (useInitialLoadout c inp) =
       fst (useInitialLoadout c (inp\<lparr>searchParams := withoutParam ''l'' (searchParams inp)\<rparr>))"
proof (intro impI)
  assume a: "noPriorLoadout inp \<and> searchGet (searchParams inp) ''l'' = Some json \<and> json \<noteq> [] \<and>
   parseLoadoutFromURLParam c json = Inl message"
  then have shared:
    "sharedLoadout c inp = (None, [badLoadoutShare message, navigate (pathname inp) True])"
    by (simp add: sharedLoadout_def)
  from a have np: "noPriorLoadout inp" by simp
  have res: "useInitialLoadout c inp =
       ((fst (constructedLoadout c inp), None),
        badLoadoutShare message # navigate (pathname inp) True #
        (snd (urlSubclass c inp) @ snd (urlLoadoutParameters c inp)))"
    using useInitialLoadout_constructed [OF np shared] by (simp add: constructed_effects)
  have "errorNotifications (snd (useInitialLoadout c inp)) =
       1 + errorNotifications (snd (urlSubclass c inp)) +
       errorNotifications (snd (urlLoadoutParameters c inp))"
    unfolding res by (simp add: errorNotifications_def badLoadoutShare_def)
  then have count: "errorNotifications (snd (useInitialLoadout c inp)) =
       1 + (if decodes (JSON_parse_subclass c) (searchGet (searchParams inp) ''s'') then 0 else 1) +
       (if parametersDecode c (searchGet (searchParams inp) ''p'') then 0 else 1)"
    by (simp only: urlSubclass_errors urlLoadoutParameters_errors)
  have one: "snd (useInitialLoadout c inp) = [badLoadoutShare message, navigate (pathname inp) True] \<and>
        errorNotifications (snd (useInitialLoadout c inp)) = 1"
    if "decodes (JSON_parse_subclass c) (searchGet (searchParams inp) ''s'') \<and>
      parametersDecode c (searchGet (searchParams inp) ''p'')"
    using that count res
    by (simp add: urlSubclass_decodes urlLoadoutParameters_decodes)
  have fall: "fst (useInitialLoadout c inp) =
       fst (useInitialLoadout c (inp\<lparr>searchParams := withoutParam ''l'' (searchParams inp)\<rparr>))"
    by (simp add: res useInitialLoadout_without [OF np])
  from res count one fall
  show "useInitialLoadout c inp =
       ((fst (constructedLoadout c inp), None),
        badLoadoutShare message # navigate (pathname inp) True #
        (snd (urlSubclass c inp) @ snd (urlLoadoutParameters c inp))) \<and>
     errorNotifications (snd (useInitialLoadout c inp)) =
       1 + (if decodes (JSON_parse_subclass c) (searchGet (searchParams inp) ''s'') then 0 else 1) +
       (if parametersDecode c (searchGet (searchParams inp) ''p'') then 0 else 1) \<and>
     (decodes (JSON_parse_subclass c) (searchGet (searchParams inp) ''s'') \<and>
      parametersDecode c (searchGet (searchParams inp) ''p'') \<longrightarrow>
        snd (useInitialLoadout c inp) = [badLoadoutShare message, navigate (pathname inp) True] \<and>
        errorNotifications (snd (useInitialLoadout c inp)) = 1) \<and>
     fst (useInitialLoadout c inp) =
       fst (useInitialLoadout c (inp\<lparr>searchParams := withoutParam ''l'' (searchParams inp)\<rparr>))"
    by blast
qed

theorem share_decode_failure_witness:
  "useInitialLoadout demoCollaborators (demoInputs None [(''l'', ''broken'')]) =
     ((\<lparr>loadout_id = ''lo-3'', loadout_name = [], classType = Num 3, loadout_items = [],
        parameters = Some emptyParameters, loadout_notes = None\<rparr>, None),
      [showNotification
         \<lparr>ntype = Error, title = T ''Loadouts.BadLoadoutShare'' [],
          body = T ''Loadouts.BadLoadoutShareBody'' [(''error'', ''Unexpected token'')]\<rparr>,
       navigate ''/optimizer'' True]) \<and>
   errorNotifications (snd (useInitialLoadout demoCollaborators (demoInputs None [(''l'', ''broken'')]))) = 1"
proof -
  let ?inp = "demoInputs None [(''l'', ''broken'')]"
  have pre: "noPriorLoadout ?inp \<and> searchGet (searchParams ?inp) ''l'' = Some ''broken'' \<and>
      ''broken'' \<noteq> [] \<and> parseLoadoutFromURLParam demoCollaborators ''broken'' = Inl ''Unexpected token''"
    by (simp add: demoInputs_def demoCollaborators_def searchGet_def noPriorLoadout_def)
  have sub: "snd (urlSubclass demoCollaborators ?inp) = []"
    and par: "snd (urlLoadoutParameters demoCollaborators ?inp) = []"
    by (simp_all add: urlSubclass_def urlLoadoutParameters_def demoInputs_def searchGet_def)
  have con: "fst (constructedLoadout demoCollaborators ?inp) =
      \<lparr>loadout_id = ''lo-3'', loadout_name = [], classType = Num 3, loadout_items = [],
        parameters = Some emptyParameters, loadout_notes = None\<rparr>"
    by (simp add: demo_constructed searchGet_def DestinyClass_Unknown_def)
  have path: "pathname ?inp = ''/optimizer''" by (simp add: demoInputs_def)
  from share_decode_failure [of ?inp "''broken''" demoCollaborators "''Unexpected token''"] pre
  have "useInitialLoadout demoCollaborators ?inp =
       ((fst (constructedLoadout demoCollaborators ?inp), None),
        badLoadoutShare ''Unexpected token'' # navigate (pathname ?inp) True #
        (snd (urlSubclass demoCollaborators ?inp) @ snd (urlLoadoutParameters demoCollaborators ?inp)))"
    by blast
  then show ?thesis
    by (simp add: sub par con path badLoadoutShare_def errorNotifications_def)
qed

text \<open>
  C5 as stated, with exactly one error notification in every case, fails: with a
  parameter \<open>l\<close> that does not decode and a parameter \<open>s\<close> that does not parse, two are
  shown; and so with a parameter \<open>p\<close> that parses and on which the sanitizer throws.
\<close>

theorem share_decode_failure_counterexample:
  "noPriorLoadout (demoInputs None [(''l'', ''broken''), (''s'', ''{'')]) \<and>
   searchGet (searchParams (demoInputs None [(''l'', ''broken''), (''s'', ''{'')])) ''l'' = Some ''broken'' \<and>
   parseLoadoutFromURLParam demoCollaborators ''broken'' = Inl ''Unexpected token'' \<and>
   snd (useInitialLoadout demoCollaborators (demoInputs None [(''l'', ''broken''), (''s'', ''{'')])) =
     [badLoadoutShare ''Unexpected token'', navigate ''/optimizer'' True,
      badLoadoutShare ''Unexpected end of JSON input''] \<and>
   errorNotifications
     (snd (useInitialLoadout demoCollaborators (demoInputs None [(''l'', ''broken''), (''s'', ''{'')]))) = 2 \<and>
   errorNotifications
     (snd (useInitialLoadout demoCollaborators (demoInputs None [(''l'', ''broken''), (''s'', ''{'')]))) \<noteq> 1 \<and>
   JSON_parse_parameters demoCollaborators ''null-constraint'' = Inr nullConstraintParameters \<and>
   snd (useInitialLoadout demoCollaborators
          (demoInputs None [(''l'', ''broken''), (''p'', ''null-constraint'')])) =
     [badLoadoutShare ''Unexpected token'', navigate ''/optimizer'' True,
      badLoadoutShare nullEntryMessage] \<and>
   errorNotifications
     (snd (useInitialLoadout demoCollaborators
        (demoInputs None [(''l'', ''broken''), (''p'', ''null-constraint'')]))) = 2"
proof -
  let ?inp = "demoInputs None [(''l'', ''broken''), (''s'', ''{'')]"
  let ?inp' = "demoInputs None [(''l'', ''broken''), (''p'', ''null-constraint'')]"
  have np: "noPriorLoadout ?inp" and np': "noPriorLoadout ?inp'"
    by (simp_all add: demoInputs_def noPriorLoadout_def)
  have shared: "sharedLoadout demoCollaborators ?inp =
      (None, [badLoadoutShare ''Unexpected token'', navigate ''/optimizer'' True])"
    and shared': "sharedLoadout demoCollaborators ?inp' =
      (None, [badLoadoutShare ''Unexpected token'', navigate ''/optimizer'' True])"
    by (simp_all add: sharedLoadout_def demoInputs_def demoCollaborators_def searchGet_def)
  have sub: "snd (urlSubclass demoCollaborators ?inp) = [badLoadoutShare ''Unexpected end of JSON input'']"
    and sub': "snd (urlSubclass demoCollaborators ?inp') = []"
    by (simp_all add: urlSubclass_def demoInputs_def demoCollaborators_def searchGet_def)
  have par: "snd (urlLoadoutParameters demoCollaborators ?inp) = []"
    by (simp add: urlLoadoutParameters_def demoInputs_def searchGet_def)
  have parsed: "JSON_parse_parameters demoCollaborators ''null-constraint'' = Inr nullConstraintParameters"
    by (simp add: demoCollaborators_def)
  have get: "searchGet (searchParams ?inp') ''p'' = Some ''null-constraint''"
    by (simp add: demoInputs_def searchGet_def)
  have dflt: "defaultLoadoutParameters demoCollaborators = demoDefaults"
    by (simp add: demoCollaborators_def)
  have par': "snd (urlLoadoutParameters demoCollaborators ?inp') = [badLoadoutShare nullEntryMessage]"
    using urlLoadoutParameters_parsed [OF get _ parsed]
    by (simp add: dflt demo_null_constraint)
  have eff: "snd (useInitialLoadout demoCollaborators ?inp) =
     [badLoadoutShare ''Unexpected token'', navigate ''/optimizer'' True,
      badLoadoutShare ''Unexpected end of JSON input'']"
    using useInitialLoadout_constructed [OF np shared] by (simp add: constructed_effects sub par)
  have eff': "snd (useInitialLoadout demoCollaborators ?inp') =
     [badLoadoutShare ''Unexpected token'', navigate ''/optimizer'' True,
      badLoadoutShare nullEntryMessage]"
    using useInitialLoadout_constructed [OF np' shared'] by (simp add: constructed_effects sub' par')
  have two: "errorNotifications (snd (useInitialLoadout demoCollaborators ?inp)) = 2"
    unfolding eff by (simp add: errorNotifications_def badLoadoutShare_def)
  have two': "errorNotifications (snd (useInitialLoadout demoCollaborators ?inp')) = 2"
    unfolding eff' by (simp add: errorNotifications_def badLoadoutShare_def)
  from eff eff' two two' np parsed show ?thesis
    by (simp add: demoInputs_def demoCollaborators_def searchGet_def)
qed

subsection \<open>Presence of the parameters\<close>

lemma urlLoadoutParameters_present:
  "savedLoadoutParameters inp \<noteq> None \<Longrightarrow> fst (urlLoadoutParameters c inp) \<noteq> None"
  by (simp add: urlLoadoutParameters_def split: option.splits sum.splits)

text \<open>
  C6, branch by branch. The loadout the hook makes of the query parameters and the saved
  parameters has the parameters \<open>urlLoadoutParameters\<close> gives, which are present whenever
  the saved parameters are. A loadout decoded from the parameter \<open>l\<close> is returned with
  the parameters the decoder gave it. A loadout of the navigation state that has
  parameters keeps them present; one that has none is returned without them, unless the
  definitions are loaded and an equipped exotic is found, whose hash then is the only
  parameter.
\<close>

theorem resolved_parameters_present:
  "(noPriorLoadout inp \<and> fst (sharedLoadout c inp) = None \<and> savedLoadoutParameters inp \<noteq> None \<longrightarrow>
      parameters (fst (fst (useInitialLoadout c inp))) \<noteq> None) \<and>
   (noPriorLoadout inp \<and> fst (sharedLoadout c inp) = None \<longrightarrow>
      parameters (fst (fst (useInitialLoadout c inp))) = fst (urlLoadoutParameters c inp)) \<and>
   (noPriorLoadout inp \<and> sharedLoadout c inp = (Some parsed, effects) \<longrightarrow>
      parameters (fst (fst (useInitialLoadout c inp))) = parameters parsed) \<and>
   (nav_state inp = Some st \<and> nav_loadout st = Some l \<and> parameters l \<noteq> None \<longrightarrow>
      parameters (fst (fst (useInitialLoadout c inp))) \<noteq> None) \<and>
   (nav_state inp = Some st \<and> nav_loadout st = Some l \<and> parameters l = None \<longrightarrow>
      parameters (fst (fst (useInitialLoadout c inp))) =
        (case hook_defs inp of
           None \<Rightarrow> None
         | Some d \<Rightarrow>
             (case equippedExotic d (LockableBucketHashes c) l of
                None \<Rightarrow> None
              | Some x \<Rightarrow> Some (emptyParameters\<lparr>exoticArmorHash := Some (int (def_hash x))\<rparr>))))"
proof -
  have built: "parameters (fst (fst (useInitialLoadout c inp))) = fst (urlLoadoutParameters c inp)"
    if "noPriorLoadout inp" "fst (sharedLoadout c inp) = None"
  proof -
    from that(2) have "sharedLoadout c inp = (None, snd (sharedLoadout c inp))"
      by (simp add: prod_eq_iff)
    from useInitialLoadout_constructed [OF that(1) this] show ?thesis
      by (simp add: constructed_parameters)
  qed
  have shared: "parameters (fst (fst (useInitialLoadout c inp))) = parameters parsed"
    if "noPriorLoadout inp" "sharedLoadout c inp = (Some parsed, effects)"
    using useInitialLoadout_shared [OF that] by simp
  have saved: "parameters (fst (fst (useInitialLoadout c inp))) \<noteq> None"
    if "noPriorLoadout inp" "fst (sharedLoadout c inp) = None" "savedLoadoutParameters inp \<noteq> None"
    using built [OF that(1,2)] urlLoadoutParameters_present [OF that(3), of c] by simp
  have kept: "parameters (fst (fst (useInitialLoadout c inp))) \<noteq> None"
    if "nav_state inp = Some st" "nav_loadout st = Some l" "parameters l \<noteq> None"
    using useInitialLoadout_prior [OF that(1,2), of c] preloaded_parameters_Some [OF that(3), of c inp]
    by simp
  have absent: "parameters (fst (fst (useInitialLoadout c inp))) =
        (case hook_defs inp of
           None \<Rightarrow> None
         | Some d \<Rightarrow>
             (case equippedExotic d (LockableBucketHashes c) l of
                None \<Rightarrow> None
              | Some x \<Rightarrow> Some (emptyParameters\<lparr>exoticArmorHash := Some (int (def_hash x))\<rparr>)))"
    if "nav_state inp = Some st" "nav_loadout st = Some l" "parameters l = None"
    using useInitialLoadout_prior [OF that(1,2), of c] preloaded_parameters_None [OF that(3), of c inp]
    by simp
  from built shared saved kept absent show ?thesis
    by blast
qed

theorem resolved_parameters_present_witness:
  "savedLoadoutParameters (demoInputs None []) = Some emptyParameters \<and>
   parameters (fst (fst (useInitialLoadout demoCollaborators (demoInputs None [])))) = Some emptyParameters \<and>
   parameters (fst (fst (useInitialLoadout demoCollaborators
     (demoInputs (Some priorWithParameters) [])))) \<noteq> None"
proof -
  let ?inp = "demoInputs None []"
  have pre: "noPriorLoadout ?inp \<and> fst (sharedLoadout demoCollaborators ?inp) = None"
    by (simp add: demoInputs_def noPriorLoadout_def sharedLoadout_def searchGet_def)
  have url: "fst (urlLoadoutParameters demoCollaborators ?inp) = Some emptyParameters"
    by (simp add: urlLoadoutParameters_def demoInputs_def searchGet_def)
  have prior: "nav_state (demoInputs (Some priorWithParameters) []) = Some priorWithParameters \<and>
      nav_loadout priorWithParameters = Some (demoLoadout\<lparr>parameters := Some urlDemoParameters\<rparr>) \<and>
      parameters (demoLoadout\<lparr>parameters := Some urlDemoParameters\<rparr>) \<noteq> None"
    by (simp add: demoInputs_def priorWithParameters_def)
  from resolved_parameters_present [of ?inp demoCollaborators] pre
  have "parameters (fst (fst (useInitialLoadout demoCollaborators ?inp))) =
      fst (urlLoadoutParameters demoCollaborators ?inp)"
    by blast
  moreover
  from resolved_parameters_present [of "demoInputs (Some priorWithParameters) []" demoCollaborators
      _ _ priorWithParameters "demoLoadout\<lparr>parameters := Some urlDemoParameters\<rparr>"] prior
  have "parameters (fst (fst (useInitialLoadout demoCollaborators
     (demoInputs (Some priorWithParameters) [])))) \<noteq> None"
    by blast
  ultimately show ?thesis
    by (simp add: url) (simp add: demoInputs_def)
qed

text \<open>
  C6 as stated, for the loadout of the navigation state, fails: a loadout passed without
  parameters, with no equipped exotic, is returned without parameters.
\<close>

theorem resolved_parameters_present_counterexample:
  "nav_state (demoInputs (Some priorState) []) = Some priorState \<and>
   nav_loadout priorState = Some demoLoadout \<and>
   parameters demoLoadout = None \<and>
   fst (useInitialLoadout demoCollaborators (demoInputs (Some priorState) [])) =
     (demoLoadout, Some ''store-1'') \<and>
   parameters (fst (fst (useInitialLoadout demoCollaborators (demoInputs (Some priorState) [])))) = None"
  by (simp add: useInitialLoadout_def demoInputs_def priorState_def preloadedLoadout_def
      hasExoticArmorHash_def demoLoadout_def equippedExotic_def)

end
